theory Spec2Isabelle
  imports Complex_Main
begin

section \<open>Python values used by the pipeline\<close>

text \<open>
  The numeric cells of the pipeline are Python floats or \<open>None\<close>. A float is modelled
  by its exact real value, or by one of the three special values the code branches on:
  not-a-number and the two infinities. \<open>None\<close> is the \<open>None\<close> of \<open>option\<close>.
  Arithmetic on finite values is exact here: the rounding of a result to the nearest
  double, overflow to infinity, and the sign of zero are not part of the model, and the
  two factors of the valuation enter it as the rationals their literals denote.
  Comparisons are exact in the code as well; a literal that is compared with is
  therefore modelled by the exact value of its double.
\<close>

datatype pyfloat = NaN | PInf | NInf | Fin real

text \<open>An exception is identified by the name of its type, as \<open>type(e).__name__\<close> reads it.\<close>

type_synonym exc = string

fun isnan :: "pyfloat \<Rightarrow> bool" where
  "isnan NaN = True"
| "isnan _ = False"

text \<open>Comparisons of floats: every comparison with not-a-number is false.\<close>

fun fle :: "pyfloat \<Rightarrow> pyfloat \<Rightarrow> bool" where
  "fle NaN _ = False"
| "fle _ NaN = False"
| "fle NInf _ = True"
| "fle _ PInf = True"
| "fle PInf _ = False"
| "fle _ NInf = False"
| "fle (Fin x) (Fin y) = (x \<le> y)"

fun flt :: "pyfloat \<Rightarrow> pyfloat \<Rightarrow> bool" where
  "flt NaN _ = False"
| "flt _ NaN = False"
| "flt PInf _ = False"
| "flt _ NInf = False"
| "flt NInf _ = True"
| "flt _ PInf = True"
| "flt (Fin x) (Fin y) = (x < y)"

definition fgt :: "pyfloat \<Rightarrow> pyfloat \<Rightarrow> bool" where
  "fgt a b = flt b a"

text \<open>Multiplication, addition and division of floats (the special values as in IEEE 754).\<close>

fun fmul :: "pyfloat \<Rightarrow> pyfloat \<Rightarrow> pyfloat" where
  "fmul NaN _ = NaN"
| "fmul _ NaN = NaN"
| "fmul (Fin x) (Fin y) = Fin (x * y)"
| "fmul (Fin x) PInf = (if x = 0 then NaN else if 0 < x then PInf else NInf)"
| "fmul (Fin x) NInf = (if x = 0 then NaN else if 0 < x then NInf else PInf)"
| "fmul PInf (Fin y) = (if y = 0 then NaN else if 0 < y then PInf else NInf)"
| "fmul NInf (Fin y) = (if y = 0 then NaN else if 0 < y then NInf else PInf)"
| "fmul PInf PInf = PInf"
| "fmul PInf NInf = NInf"
| "fmul NInf PInf = NInf"
| "fmul NInf NInf = PInf"

fun fadd :: "pyfloat \<Rightarrow> pyfloat \<Rightarrow> pyfloat" where
  "fadd NaN _ = NaN"
| "fadd _ NaN = NaN"
| "fadd (Fin x) (Fin y) = Fin (x + y)"
| "fadd PInf NInf = NaN"
| "fadd NInf PInf = NaN"
| "fadd PInf _ = PInf"
| "fadd NInf _ = NInf"
| "fadd _ PInf = PInf"
| "fadd _ NInf = NInf"

text \<open>The quotient for a divisor that is not zero.\<close>

fun fdiv :: "pyfloat \<Rightarrow> pyfloat \<Rightarrow> pyfloat" where
  "fdiv NaN _ = NaN"
| "fdiv _ NaN = NaN"
| "fdiv (Fin x) (Fin y) = Fin (x / y)"
| "fdiv (Fin x) PInf = Fin 0"
| "fdiv (Fin x) NInf = Fin 0"
| "fdiv PInf (Fin y) = (if y < 0 then NInf else PInf)"
| "fdiv NInf (Fin y) = (if y < 0 then PInf else NInf)"
| "fdiv PInf PInf = NaN"
| "fdiv PInf NInf = NaN"
| "fdiv NInf PInf = NaN"
| "fdiv NInf NInf = NaN"

text \<open>
  Python's \<open>a / b\<close> on two floats raises \<open>ZeroDivisionError\<close> when the divisor is zero,
  whatever the dividend is, and is the IEEE quotient otherwise.
\<close>

definition py_truediv :: "pyfloat \<Rightarrow> pyfloat \<Rightarrow> exc + pyfloat" where
  "py_truediv a b = (if b = Fin 0 then Inl ''ZeroDivisionError'' else Inr (fdiv a b))"

section \<open>Valuation calculator\<close>

definition REPORT_FACTOR :: pyfloat where
  "REPORT_FACTOR = Fin (9 / 10)"

definition BARGAIN_FACTOR :: pyfloat where
  "BARGAIN_FACTOR = Fin (8 / 10)"

text \<open>
  \<open>safe_ratio\<close>: the guard tests \<open>current_price is None\<close>, then
  \<open>report_eval in (None, 0)\<close>, then \<open>isnan(report_eval)\<close>; only then it divides.
  The result is \<open>Inl\<close> of an exception when the division raises.
\<close>

definition safe_ratio :: "pyfloat option \<Rightarrow> pyfloat option \<Rightarrow> exc + pyfloat option" where
  "safe_ratio current_price report_eval =
     (if current_price = None \<or> report_eval = None \<or> report_eval = Some (Fin 0)
         \<or> (case report_eval of None \<Rightarrow> False | Some r \<Rightarrow> isnan r)
      then Inr None
      else (case py_truediv (the current_price) (the report_eval) of
              Inl e \<Rightarrow> Inl e
            | Inr q \<Rightarrow> Inr (Some q)))"

section \<open>Row formatter: highlight classification\<close>

definition STRONG_COLOR :: string where
  "STRONG_COLOR = ''#6E0080''"

definition MEDIUM_COLOR :: string where
  "MEDIUM_COLOR = ''#00803E''"

text \<open>
  The comparisons of \<open>row_color_by_ratio\<close> are exact comparisons of doubles, so their
  literals \<open>0.8\<close> and \<open>0.9\<close> are the doubles the literals denote: the doubles nearest
  to 8/10 and to 9/10, which are 3602879701896397 / 2^52 and 8106479329266893 / 2^53,
  both a little above the decimal.
\<close>

definition double_0_8 :: real where
  "double_0_8 = 3602879701896397 / 4503599627370496"

definition double_0_9 :: real where
  "double_0_9 = 8106479329266893 / 9007199254740992"

text \<open>
  \<open>row_color_by_ratio\<close>: two tests in sequence, each guarded by
  \<open>r is not None and not isnan(r)\<close>; the empty string stands for no highlight.
\<close>

definition row_color_by_ratio :: "pyfloat option \<Rightarrow> string" where
  "row_color_by_ratio r =
     (if r \<noteq> None \<and> \<not> isnan (the r) \<and> fle (the r) (Fin double_0_8) then STRONG_COLOR
      else if r \<noteq> None \<and> \<not> isnan (the r) \<and> fgt (the r) (Fin double_0_8)
              \<and> flt (the r) (Fin double_0_9)
      then MEDIUM_COLOR
      else '''')"


section \<open>Row formatter: display strings\<close>

text \<open>
  Python's \<open>round(x)\<close> on a float returns the nearest integer, a tie going to the
  even neighbour.
\<close>

definition round_half_even :: "real \<Rightarrow> int" where
  "round_half_even x =
     (let f = \<lfloor>x\<rfloor>; d = x - of_int f
      in if d < 1 / 2 then f else if 1 / 2 < d then f + 1 else if even f then f else f + 1)"

text \<open>
  \<open>int(round(float(x)))\<close> for a float \<open>x\<close>: rounding not-a-number raises
  \<open>ValueError\<close>, rounding an infinity raises \<open>OverflowError\<close>.
\<close>

fun py_int_round :: "pyfloat \<Rightarrow> exc + int" where
  "py_int_round NaN = Inl ''ValueError''"
| "py_int_round PInf = Inl ''OverflowError''"
| "py_int_round NInf = Inl ''OverflowError''"
| "py_int_round (Fin x) = Inr (round_half_even x)"

definition digit_char :: "nat \<Rightarrow> char" where
  "digit_char d = ''0123456789'' ! (d mod 10)"

text \<open>\<open>str(n)\<close> for a natural number: its decimal digits, no leading zero.\<close>

fun show_nat :: "nat \<Rightarrow> string" where
  "show_nat n = (if n < 10 then [digit_char n] else show_nat (n div 10) @ [digit_char n])"

definition show_int :: "int \<Rightarrow> string" where
  "show_int i = (if i < 0 then ''-'' else []) @ show_nat (nat \<bar>i\<bar>)"

text \<open>The format \<open>,\<close>: a comma before every group of three digits, counted from the right.\<close>

fun group3 :: "string \<Rightarrow> string" where
  "group3 ds =
     (if length ds \<le> 3 then ds
      else group3 (take (length ds - 3) ds) @ '','' @ drop (length ds - 3) ds)"

definition format_int_commas :: "int \<Rightarrow> string" where
  "format_int_commas i = (if i < 0 then ''-'' else []) @ group3 (show_nat (nat \<bar>i\<bar>))"

text \<open>
  \<open>fmt_int_commas\<close>: the empty string for \<open>None\<close> and not-a-number; otherwise the
  rounded value with commas, and the empty string again when the conversion raises
  (the \<open>except Exception\<close> branch).
\<close>

definition fmt_int_commas :: "pyfloat option \<Rightarrow> string" where
  "fmt_int_commas x =
     (if x = None \<or> isnan (the x) then []
      else (case py_int_round (the x) of
              Inr n \<Rightarrow> format_int_commas n
            | Inl e \<Rightarrow> []))"

text \<open>
  The format \<open>.3f\<close>: the value rounded to the nearest multiple of one thousandth (ties
  to even), written with its sign, its integer digits, a point and three decimals; an
  infinity is written \<open>inf\<close> or \<open>-inf\<close>, not-a-number \<open>nan\<close>.
\<close>

definition pad3 :: "nat \<Rightarrow> string" where
  "pad3 n = [digit_char (n div 100), digit_char (n div 10), digit_char n]"

fun format_3f :: "pyfloat \<Rightarrow> string" where
  "format_3f NaN = ''nan''"
| "format_3f PInf = ''inf''"
| "format_3f NInf = ''-inf''"
| "format_3f (Fin x) =
     (let n = nat \<bar>round_half_even (x * 1000)\<bar>
      in (if x < 0 then ''-'' else []) @ show_nat (n div 1000) @ ''.'' @ pad3 (n mod 1000))"

definition fmt_ratio :: "pyfloat option \<Rightarrow> string" where
  "fmt_ratio x = (if x = None \<or> isnan (the x) then [] else format_3f (the x))"

section \<open>Calendar dates and the clock\<close>

datatype date = Date (year: int) (month: nat) (day: nat)

definition is_leap :: "int \<Rightarrow> bool" where
  "is_leap y = (y mod 4 = 0 \<and> (y mod 100 \<noteq> 0 \<or> y mod 400 = 0))"

definition days_in_month :: "int \<Rightarrow> nat \<Rightarrow> nat" where
  "days_in_month y m =
     (if m = 2 then (if is_leap y then 29 else 28)
      else if m = 4 \<or> m = 6 \<or> m = 9 \<or> m = 11 then 30 else 31)"

definition valid_date :: "date \<Rightarrow> bool" where
  "valid_date d = (1 \<le> month d \<and> month d \<le> 12 \<and> 1 \<le> day d
                   \<and> day d \<le> days_in_month (year d) (month d))"

text \<open>\<open>a <= b\<close> on two timestamps at midnight: the order of the calendar.\<close>

definition date_le :: "date \<Rightarrow> date \<Rightarrow> bool" where
  "date_le a b =
     (year a < year b
      \<or> (year a = year b \<and> (month a < month b \<or> (month a = month b \<and> day a \<le> day b))))"

text \<open>
  \<open>t - pd.DateOffset(years=n)\<close>: the same month and day \<open>n\<close> years earlier, the day
  clipped to the length of the month (29 February becomes 28 February).
\<close>

definition sub_years :: "date \<Rightarrow> int \<Rightarrow> date" where
  "sub_years d n =
     Date (year d - n) (month d) (min (day d) (days_in_month (year d - n) (month d)))"

text \<open>
  The system clock at the moment of the run, read as a calendar date in two ways: in the
  local time zone of the machine (\<open>pd.Timestamp.today().normalize()\<close>, which the
  aggregator reads) and in UTC (\<open>datetime.now(timezone.utc)\<close>, which stamps the page).
\<close>

record clock =
  local_today :: date
  utc_today :: date

section \<open>Report aggregator\<close>

text \<open>
  A field of a raw report is a JSON value: null, a number or a string. A raw report is
  a dictionary; of its keys only three are read, and a key that is absent is \<open>None\<close>.
\<close>

datatype jval = JNull | JNum pyfloat | JStr string

record raw_report =
  issueDate :: "jval option"
  targetPrice :: "jval option"
  source :: "jval option"

text \<open>
  Two conversions are done by the data-frame library and are parameters of the model:
  \<open>strptime\<close> is what \<open>to_datetime(format="%d/%m/%Y", errors="coerce")\<close> makes of
  a cell that is not missing (\<open>None\<close> for a cell it cannot parse, which becomes
  not-a-time), and \<open>str_to_numeric\<close> is what \<open>to_numeric(errors="coerce")\<close> makes of
  a string (not-a-number for a string that is no number).
\<close>

record pd =
  strptime :: "jval \<Rightarrow> date option"
  str_to_numeric :: "string \<Rightarrow> pyfloat"

text \<open>A cell is missing when its key is absent, or its value is null or not-a-number.\<close>

fun isna :: "jval option \<Rightarrow> bool" where
  "isna None = True"
| "isna (Some JNull) = True"
| "isna (Some (JNum x)) = isnan x"
| "isna (Some (JStr s)) = False"

definition to_datetime :: "pd \<Rightarrow> jval option \<Rightarrow> date option" where
  "to_datetime P c = (if isna c then None else strptime P (the c))"

fun to_numeric :: "pd \<Rightarrow> jval option \<Rightarrow> pyfloat" where
  "to_numeric P None = NaN"
| "to_numeric P (Some JNull) = NaN"
| "to_numeric P (Some (JNum x)) = x"
| "to_numeric P (Some (JStr s)) = str_to_numeric P s"

text \<open>\<open>Series.mean()\<close>: the values that are not-a-number are skipped.\<close>

definition series_mean :: "pyfloat list \<Rightarrow> pyfloat" where
  "series_mean xs =
     (let vals = filter (\<lambda>x. \<not> isnan x) xs
      in if vals = [] then NaN
         else fdiv (foldl fadd (Fin 0) vals) (Fin (real (length vals))))"

text \<open>\<open>Series.dropna().nunique()\<close>: the number of distinct values that are not missing.\<close>

definition dropna_nunique :: "jval option list \<Rightarrow> nat" where
  "dropna_nunique cs = length (remdups (filter (\<lambda>c. \<not> isna c) cs))"

text \<open>A column exists in the frame when some row has the key.\<close>

definition has_column :: "(raw_report \<Rightarrow> jval option) \<Rightarrow> raw_report list \<Rightarrow> bool" where
  "has_column key rows = list_ex (\<lambda>r. key r \<noteq> None) rows"

text \<open>The row filter \<open>issueDate_dt.notna() & (issueDate_dt >= cutoff)\<close>.\<close>

definition in_window :: "pd \<Rightarrow> date \<Rightarrow> raw_report \<Rightarrow> bool" where
  "in_window P cutoff r =
     (case to_datetime P (issueDate r) of None \<Rightarrow> False | Some d \<Rightarrow> date_le cutoff d)"

text \<open>The frame \<open>df_1y\<close> of \<open>build_one_year_report_stats\<close>.\<close>

definition df_1y :: "pd \<Rightarrow> clock \<Rightarrow> raw_report list \<Rightarrow> int \<Rightarrow> raw_report list" where
  "df_1y P clk raw_rows lookback_years =
     (let cutoff = sub_years (local_today clk) lookback_years
      in filter (in_window P cutoff) raw_rows)"

text \<open>
  \<open>build_one_year_report_stats\<close> returns the triple (average target, diversity,
  number of reports). The target price column of \<open>df_1y\<close> is all not-a-number when no
  row has the key.
\<close>

definition build_one_year_report_stats ::
  "pd \<Rightarrow> clock \<Rightarrow> raw_report list \<Rightarrow> int \<Rightarrow> pyfloat option \<times> nat \<times> nat" where
  "build_one_year_report_stats P clk raw_rows lookback_years =
     (if raw_rows = [] then (None, 0, 0)
      else if \<not> has_column issueDate raw_rows then (None, 0, 0)
      else
        (let frame = df_1y P clk raw_rows lookback_years
         in if frame = [] then (None, 0, 0)
            else
              (let prices = (if has_column targetPrice raw_rows
                             then map (\<lambda>r. to_numeric P (targetPrice r)) frame
                             else map (\<lambda>r. NaN) frame);
                   avg_target = series_mean prices;
                   diversity = (if has_column source raw_rows
                                then dropna_nunique (map source frame) else 0);
                   n_reports = length frame
               in ((if isnan avg_target then None else Some avg_target),
                   diversity, n_reports))))"

text \<open>The triple as a function of the frame \<open>df_1y\<close> alone.\<close>

definition frame_stats :: "pd \<Rightarrow> raw_report list \<Rightarrow> pyfloat option \<times> nat \<times> nat" where
  "frame_stats P frame =
     (if frame = [] then (None, 0, 0)
      else ((if isnan (series_mean (map (\<lambda>r. to_numeric P (targetPrice r)) frame)) then None
             else Some (series_mean (map (\<lambda>r. to_numeric P (targetPrice r)) frame))),
            dropna_nunique (map source frame), length frame))"

section \<open>Report paginator\<close>

text \<open>
  A request names the ticker, the page index and the page size. The server answers a
  request with a transport error, or with a status code and a body; the body is a JSON
  object (a dictionary from keys to lists of rows, \<open>None\<close> for a key that is absent or
  null) or is not JSON at all.
\<close>

type_synonym request = "string \<times> int \<times> int"

type_synonym 'r response = "string \<Rightarrow> 'r list option"

datatype 'r http_result =
  Transport_Error exc
| Http_Response nat "'r response option"

text \<open>
  \<open>fetch_reports_page\<close>: the request is issued (it is appended to the log of requests),
  \<open>raise_for_status\<close> raises for a status from 400 to 599, and \<open>r.json()\<close> raises for
  a body that is not JSON.
\<close>

definition fetch_reports_page ::
  "(request \<Rightarrow> 'r http_result) \<Rightarrow> string \<Rightarrow> int \<Rightarrow> int \<Rightarrow> request list
     \<Rightarrow> request list \<times> (exc + 'r response)" where
  "fetch_reports_page server ticker page page_size reqs =
     (let reqs' = reqs @ [(ticker, page, page_size)]
      in (case server (ticker, page, page_size) of
            Transport_Error e \<Rightarrow> (reqs', Inl e)
          | Http_Response status body \<Rightarrow>
              if 400 \<le> status \<and> status < 600 then (reqs', Inl ''HTTPError'')
              else (case body of
                      None \<Rightarrow> (reqs', Inl ''JSONDecodeError'')
                    | Some js \<Rightarrow> (reqs', Inr js))))"

text \<open>Python's \<open>a or b\<close> on values that are lists or \<open>None\<close>.\<close>

definition truthy :: "'r list option \<Rightarrow> bool" where
  "truthy v = (case v of None \<Rightarrow> False | Some xs \<Rightarrow> xs \<noteq> [])"

definition py_or :: "'r list option \<Rightarrow> 'r list option \<Rightarrow> 'r list option" where
  "py_or a b = (if truthy a then a else b)"

text \<open>\<open>js.get("data") or js.get("items") or js.get("result") or []\<close>.\<close>

definition page_rows :: "'r response \<Rightarrow> 'r list" where
  "page_rows js =
     (case py_or (py_or (py_or (js ''data'') (js ''items'')) (js ''result'')) (Some []) of
        None \<Rightarrow> []
      | Some rows \<Rightarrow> rows)"

text \<open>
  The body of the loop of \<open>fetch_all_reports\<close>, over the pages that remain; the pause
  between two requests changes no value and is left out.
\<close>

fun fetch_loop ::
  "(request \<Rightarrow> 'r http_result) \<Rightarrow> string \<Rightarrow> int \<Rightarrow> int list \<Rightarrow> 'r list \<Rightarrow> request list
     \<Rightarrow> request list \<times> (exc + 'r list)" where
  "fetch_loop server ticker page_size [] all_rows reqs = (reqs, Inr all_rows)"
| "fetch_loop server ticker page_size (page # pages) all_rows reqs =
     (case fetch_reports_page server ticker page page_size reqs of
        (reqs', Inl e) \<Rightarrow> (reqs', Inl e)
      | (reqs', Inr js) \<Rightarrow>
          (let rows = page_rows js
           in if rows = [] then (reqs', Inr all_rows)
              else if int (length rows) < page_size then (reqs', Inr (all_rows @ rows))
              else fetch_loop server ticker page_size pages (all_rows @ rows) reqs'))"

definition fetch_all_reports ::
  "(request \<Rightarrow> 'r http_result) \<Rightarrow> string \<Rightarrow> int \<Rightarrow> int \<Rightarrow> int \<Rightarrow> request list
     \<Rightarrow> request list \<times> (exc + 'r list)" where
  "fetch_all_reports server ticker page_size max_pages page_start reqs =
     fetch_loop server ticker page_size [page_start .. page_start + max_pages - 1] [] reqs"

text \<open>
  Vocabulary for the properties of the paginator. The outcome of the request for a page
  is the exception it raises or the list of rows extracted from its answer; a page is
  full when its request succeeds with a list that is not empty and not shorter than the
  page size; the pages requested from a list of pages are its leading full pages and the
  first page after them, if there is one.
\<close>

definition page_outcome ::
  "(request \<Rightarrow> 'r http_result) \<Rightarrow> string \<Rightarrow> int \<Rightarrow> int \<Rightarrow> exc + 'r list" where
  "page_outcome server ticker page_size page =
     (case snd (fetch_reports_page server ticker page page_size []) of
        Inl e \<Rightarrow> Inl e
      | Inr js \<Rightarrow> Inr (page_rows js))"

definition rows_of :: "exc + 'r list \<Rightarrow> 'r list" where
  "rows_of outcome = (case outcome of Inl e \<Rightarrow> [] | Inr rows \<Rightarrow> rows)"

definition full_page ::
  "(request \<Rightarrow> 'r http_result) \<Rightarrow> string \<Rightarrow> int \<Rightarrow> int \<Rightarrow> bool" where
  "full_page server ticker page_size page =
     (case page_outcome server ticker page_size page of
        Inl e \<Rightarrow> False
      | Inr rows \<Rightarrow> rows \<noteq> [] \<and> \<not> int (length rows) < page_size)"

definition requested_pages ::
  "(request \<Rightarrow> 'r http_result) \<Rightarrow> string \<Rightarrow> int \<Rightarrow> int list \<Rightarrow> int list" where
  "requested_pages server ticker page_size pages =
     takeWhile (full_page server ticker page_size) pages
       @ take 1 (dropWhile (full_page server ticker page_size) pages)"

text \<open>The pages that \<open>fetch_all_reports\<close> requests: those requested from its range of pages.\<close>

definition issued_pages ::
  "(request \<Rightarrow> 'r http_result) \<Rightarrow> string \<Rightarrow> int \<Rightarrow> int \<Rightarrow> int \<Rightarrow> int list" where
  "issued_pages server ticker page_size max_pages page_start =
     requested_pages server ticker page_size [page_start .. page_start + max_pages - 1]"

section \<open>The batch\<close>

definition TICKERS :: "string list" where
  "TICKERS =
     [''MSN'', ''SAB'', ''VNM'', ''GVR'', ''MWG'', ''DGW'', ''FRT'', ''PNJ'', ''IMP'', ''DHG'',
      ''MBB'', ''VCB'', ''BID'', ''FOX'', ''FPT'', ''HPG'', ''DGC'', ''CTR'', ''VCG'', ''PC1'',
      ''GMD'', ''POW'', ''QTP'',
      ''VIC'', ''VHM'', ''DXG'', ''DIG'', ''KDH'', ''KDC'', ''KBC'', ''DPM'', ''PDR'', ''STB'',
      ''SHB'', ''SSI'', ''HUT'', ''VCI'', ''VJC'', ''GEX'', ''EIB'', ''PLX'', ''VRE'', ''VIX'',
      ''VND'', ''MCH'', ''VPL'', ''TCX'', ''NVL'']"

definition LOOKBACK_YEARS :: int where
  "LOOKBACK_YEARS = 1"

definition PAGE_SIZE :: int where
  "PAGE_SIZE = 50"

definition MAX_PAGES :: int where
  "MAX_PAGES = 50"

record ticker_row =
  Stock_Code :: string
  Current_Price :: "pyfloat option"
  Report_Evaluation :: "pyfloat option"
  Diversity_of_Report_Source :: nat
  Acceptable_Purchase_Price :: "pyfloat option"
  Ratio :: "pyfloat option"
  Reports_1Y :: nat
  Errors :: string

text \<open>
  What a run depends on: the outcome of the price request of each ticker (the price, or
  the exception \<open>fetch_current_price\<close> raises), the report server, the two library
  conversions and the clock.
\<close>

record env =
  fetch_current_price :: "string \<Rightarrow> exc + pyfloat"
  report_server :: "request \<Rightarrow> raw_report http_result"
  pandas :: pd
  system_clock :: clock

definition new_row :: "string \<Rightarrow> ticker_row" where
  "new_row ticker =
     \<lparr>Stock_Code = ticker, Current_Price = None, Report_Evaluation = None,
      Diversity_of_Report_Source = 0, Acceptable_Purchase_Price = None, Ratio = None,
      Reports_1Y = 0, Errors = []\<rparr>"

text \<open>The first \<open>try\<close> block of the loop of \<open>main\<close>.\<close>

definition price_block :: "env \<Rightarrow> string \<Rightarrow> ticker_row \<Rightarrow> ticker_row" where
  "price_block E ticker row =
     (case fetch_current_price E ticker of
        Inr p \<Rightarrow> row\<lparr>Current_Price := Some p\<rparr>
      | Inl e \<Rightarrow> row\<lparr>Errors := Errors row @ ''price_err:'' @ e @ ''; ''\<rparr>)"

text \<open>
  The second \<open>try\<close> block: an exception of the fetch, or of the division, leaves the
  fields as they were set before it and appends the report tag.
\<close>

definition reports_block :: "env \<Rightarrow> string \<Rightarrow> ticker_row \<Rightarrow> ticker_row" where
  "reports_block E ticker row =
     (case snd (fetch_all_reports (report_server E) ticker PAGE_SIZE MAX_PAGES 0 []) of
        Inl e \<Rightarrow> row\<lparr>Errors := Errors row @ ''report_err:'' @ e @ ''; ''\<rparr>
      | Inr raw_reports \<Rightarrow>
          (case build_one_year_report_stats (pandas E) (system_clock E) raw_reports LOOKBACK_YEARS of
             (avg_target_1y, diversity, n_reports_1y) \<Rightarrow>
               (let row1 = row\<lparr>Diversity_of_Report_Source := diversity,
                                Reports_1Y := n_reports_1y\<rparr>
                in (case avg_target_1y of
                      None \<Rightarrow>
                        row1\<lparr>Errors := Errors row1 @ ''no_1y_reports_or_no_targetPrice; ''\<rparr>
                    | Some avg \<Rightarrow>
                        (let report_eval = fmul avg REPORT_FACTOR;
                             acceptable = fmul report_eval BARGAIN_FACTOR;
                             row2 = row1\<lparr>Report_Evaluation := Some report_eval,
                                          Acceptable_Purchase_Price := Some acceptable\<rparr>
                         in (case safe_ratio (Current_Price row2) (Some report_eval) of
                               Inr r \<Rightarrow> row2\<lparr>Ratio := r\<rparr>
                             | Inl e \<Rightarrow>
                                 row2\<lparr>Errors := Errors row2 @ ''report_err:'' @ e @ ''; ''\<rparr>))))))"

definition process_ticker :: "env \<Rightarrow> string \<Rightarrow> ticker_row" where
  "process_ticker E ticker = reports_block E ticker (price_block E ticker (new_row ticker))"

text \<open>The loop of \<open>main\<close>: one row is appended to \<open>rows_out\<close> for each ticker.\<close>

fun main_loop :: "env \<Rightarrow> string list \<Rightarrow> ticker_row list \<Rightarrow> ticker_row list" where
  "main_loop E [] rows_out = rows_out"
| "main_loop E (ticker # tickers) rows_out =
     main_loop E tickers (rows_out @ [process_ticker E ticker])"

definition main_rows :: "env \<Rightarrow> ticker_row list" where
  "main_rows E = main_loop E TICKERS []"

text \<open>The annotation that the first block leaves in the error field of a ticker.\<close>

definition price_annotation :: "env \<Rightarrow> string \<Rightarrow> string" where
  "price_annotation E ticker =
     (case fetch_current_price E ticker of
        Inl e \<Rightarrow> ''price_err:'' @ e @ ''; ''
      | Inr p \<Rightarrow> [])"

text \<open>The background of a row of the page: no highlight for a ratio that is missing.\<close>

definition row_background :: "pyfloat option \<Rightarrow> string" where
  "row_background r = (if r = None \<or> isnan (the r) then [] else row_color_by_ratio r)"

text \<open>
  Reference instances of the two library conversions, for concrete runs: a date written
  as two digits, a slash, two digits, a slash and four digits that names a day of the
  calendar, and a number written as a plain string of digits.
\<close>

definition digit_val :: "char \<Rightarrow> nat option" where
  "digit_val c = (if c \<in> set ''0123456789'' then Some (of_char c - 48) else None)"

fun digits_val :: "string \<Rightarrow> nat option" where
  "digits_val [] = None"
| "digits_val [c] = digit_val c"
| "digits_val cs =
     (case (digits_val (butlast cs), digit_val (last cs)) of
        (Some n, Some d) \<Rightarrow> Some (10 * n + d)
      | _ \<Rightarrow> None)"

fun strptime_dmy :: "jval \<Rightarrow> date option" where
  "strptime_dmy (JStr [d1, d2, s1, m1, m2, s2, y1, y2, y3, y4]) =
     (if s1 = CHR ''/'' \<and> s2 = CHR ''/'' then
        (case (digits_val [d1, d2], digits_val [m1, m2], digits_val [y1, y2, y3, y4]) of
           (Some d, Some m, Some y) \<Rightarrow>
             (if valid_date (Date (int y) m d) then Some (Date (int y) m d) else None)
         | _ \<Rightarrow> None)
      else None)"
| "strptime_dmy _ = None"

definition numeric_of_digits :: "string \<Rightarrow> pyfloat" where
  "numeric_of_digits s = (case digits_val s of None \<Rightarrow> NaN | Some n \<Rightarrow> Fin (real n))"

definition ref_pd :: pd where
  "ref_pd = \<lparr>strptime = strptime_dmy, str_to_numeric = numeric_of_digits\<rparr>"


text \<open>
  A concrete run, used to instantiate the properties: the clock reads 1 June 2024; the
  report server answers every page of a ticker with the same three reports, fails with
  status 500 for the ticker \<open>BBB\<close> and answers with an object without rows for the
  ticker \<open>CCC\<close>; the price request times out for the ticker \<open>AAA\<close> and yields 90
  for every other ticker.
\<close>

definition example_clock :: clock where
  "example_clock = \<lparr>local_today = Date 2024 6 1, utc_today = Date 2024 6 1\<rparr>"

definition example_rows :: "raw_report list" where
  "example_rows =
     [\<lparr>issueDate = Some (JStr ''01/01/2024''), targetPrice = Some (JNum (Fin 100)),
        source = Some (JStr ''A'')\<rparr>,
      \<lparr>issueDate = Some (JStr ''01/01/2024''), targetPrice = Some (JNum (Fin 120)),
        source = Some (JStr ''B'')\<rparr>,
      \<lparr>issueDate = Some (JStr ''01/01/2020''), targetPrice = Some (JNum (Fin 999)),
        source = Some (JStr ''C'')\<rparr>]"

definition example_server :: "request \<Rightarrow> raw_report http_result" where
  "example_server rq =
     (if fst rq = ''BBB'' then Http_Response 500 None
      else if fst rq = ''CCC'' then Http_Response 200 (Some (\<lambda>k. None))
      else Http_Response 200 (Some (\<lambda>k. if k = ''data'' then Some example_rows else None)))"

definition example_env :: env where
  "example_env =
     \<lparr>fetch_current_price = (\<lambda>t. if t = ''AAA'' then Inl ''Timeout'' else Inr (Fin 90)),
      report_server = example_server,
      pandas = ref_pd,
      system_clock = example_clock\<rparr>"

section \<open>Properties of the valuation calculator\<close>

lemma safe_ratio_None [simp]:
  "safe_ratio None report_eval = Inr None" "safe_ratio current_price None = Inr None"
  by (simp_all add: safe_ratio_def)

lemma safe_ratio_Some:
  "safe_ratio (Some c) (Some r) =
     (if r = Fin 0 \<or> r = NaN then Inr None else Inr (Some (fdiv c r)))"
  by (cases r) (simp_all add: safe_ratio_def py_truediv_def)

text \<open>
  What \<open>safe_ratio\<close> computes: it never raises; it returns null exactly when the
  current price is null or the evaluation is null, zero or not-a-number, and the
  quotient of the two floats in every other case.
\<close>

lemma safe_ratio_cases:
  "safe_ratio current_price report_eval =
     (if current_price = None \<or> report_eval = None \<or> report_eval = Some (Fin 0)
         \<or> report_eval = Some NaN
      then Inr None
      else Inr (Some (fdiv (the current_price) (the report_eval))))"
proof (cases current_price)
  case None
  then show ?thesis by simp
next
  case c: (Some c)
  show ?thesis
  proof (cases report_eval)
    case None
    then show ?thesis by simp
  next
    case (Some r)
    with c show ?thesis by (simp add: safe_ratio_Some)
  qed
qed

text \<open>
  C1: the ratio is to be null whenever either operand is not-a-number. The guard of
  \<open>safe_ratio\<close> tests the evaluation for not-a-number but not the current price: for
  a current price that is not-a-number and an evaluation of 110 the division is carried
  out and its result, not-a-number, is returned instead of null.
\<close>

theorem safe_ratio_nan_price:
  "isnan NaN
   \<and> safe_ratio (Some NaN) (Some (Fin 110)) = Inr (Some NaN)
   \<and> safe_ratio (Some NaN) (Some (Fin 110)) \<noteq> Inr None
   \<and> safe_ratio (Some (Fin 110)) (Some NaN) = Inr None"
  by (simp add: safe_ratio_Some)

section \<open>Properties of the highlight classification\<close>

lemma row_color_Fin:
  "row_color_by_ratio (Some (Fin x)) =
     (if x \<le> double_0_8 then STRONG_COLOR else if x < double_0_9 then MEDIUM_COLOR else [])"
  by (simp add: row_color_by_ratio_def fgt_def double_0_8_def double_0_9_def)

lemma colors_distinct:
  "STRONG_COLOR \<noteq> MEDIUM_COLOR" "STRONG_COLOR \<noteq> []" "MEDIUM_COLOR \<noteq> []"
  by (simp_all add: STRONG_COLOR_def MEDIUM_COLOR_def)

text \<open>
  The two literals against the decimals. Each is above its decimal by less than half a
  unit in the last place. A double that is at least one half is a multiple of 2^-53;
  among these multiples none lies strictly between 8/10 and the double 0.8, and none
  lies between 9/10 and the double 0.9.
\<close>

lemma double_0_8_nearest: "8 / 10 < double_0_8 \<and> double_0_8 - 8 / 10 < 1 / 2 ^ 54"
  by (simp add: double_0_8_def)

lemma double_0_9_nearest: "9 / 10 < double_0_9 \<and> double_0_9 - 9 / 10 < 1 / 2 ^ 54"
  by (simp add: double_0_9_def)

lemma double_order: "double_0_8 < double_0_9"
  by (simp add: double_0_8_def double_0_9_def)

lemma grid_le_0_8:
  "(real_of_int k / 2 ^ 53 \<le> double_0_8)
     = (real_of_int k / 2 ^ 53 \<le> 8 / 10 \<or> real_of_int k / 2 ^ 53 = double_0_8)"
proof -
  have a: "(real_of_int k / 2 ^ 53 \<le> double_0_8) = (k \<le> 7205759403792794)"
    by (simp add: double_0_8_def field_simps)
  have "(real_of_int k / 2 ^ 53 \<le> 8 / 10) = (real_of_int (10 * k) \<le> real_of_int 72057594037927936)"
    by (simp add: field_simps)
  also have "\<dots> = (10 * k \<le> 72057594037927936)"
    by (rule of_int_le_iff)
  also have "\<dots> = (k \<le> 7205759403792793)"
    by presburger
  finally have b: "(real_of_int k / 2 ^ 53 \<le> 8 / 10) = (k \<le> 7205759403792793)" .
  have c: "(real_of_int k / 2 ^ 53 = double_0_8) = (k = 7205759403792794)"
    by (simp add: double_0_8_def field_simps)
  show ?thesis unfolding a b c by presburger
qed

lemma grid_less_0_9:
  "(real_of_int k / 2 ^ 53 < double_0_9) = (real_of_int k / 2 ^ 53 < 9 / 10)"
proof -
  have a: "(real_of_int k / 2 ^ 53 < double_0_9) = (k < 8106479329266893)"
    by (simp add: double_0_9_def field_simps)
  have "(real_of_int k / 2 ^ 53 < 9 / 10) = (real_of_int (10 * k) < real_of_int 81064793292668928)"
    by (simp add: field_simps)
  also have "\<dots> = (10 * k < 81064793292668928)"
    by (rule of_int_less_iff)
  also have "\<dots> = (k < 8106479329266893)"
    by presburger
  finally have b: "(real_of_int k / 2 ^ 53 < 9 / 10) = (k < 8106479329266893)" .
  show ?thesis unfolding a b by (rule refl)
qed

text \<open>
  C2: for a ratio that is a number, the strong colour is assigned exactly when the ratio
  is at most 0.8, the medium colour exactly when it lies strictly between 0.8 and 0.9,
  and no highlight exactly when it is 0.9 or more, where 0.8 and 0.9 are the doubles of
  the code, so that a ratio equal to the double 0.8 is strong and a ratio equal to the
  double 0.9 has no highlight. For every double (a value below one half or a multiple
  of 2^-53) this is the same as comparing with the decimals 8/10 and 9/10, the double
  0.8 itself counting as 0.8. The two colours are distinct and neither is the empty
  string, so the tiers exclude each other. A ratio that is null or not-a-number gets no
  highlight, in the function and in the rows of the page; minus infinity is below 0.8
  and plus infinity above 0.9.
\<close>

theorem row_color_by_ratio_tiers:
  "(row_color_by_ratio (Some (Fin x)) = STRONG_COLOR) = (x \<le> double_0_8)
   \<and> (row_color_by_ratio (Some (Fin x)) = MEDIUM_COLOR) = (double_0_8 < x \<and> x < double_0_9)
   \<and> (row_color_by_ratio (Some (Fin x)) = []) = (double_0_9 \<le> x)
   \<and> row_color_by_ratio None = []
   \<and> row_color_by_ratio (Some NaN) = []
   \<and> row_color_by_ratio (Some NInf) = STRONG_COLOR
   \<and> row_color_by_ratio (Some PInf) = []
   \<and> row_background r = row_color_by_ratio r
   \<and> STRONG_COLOR \<noteq> MEDIUM_COLOR \<and> STRONG_COLOR \<noteq> [] \<and> MEDIUM_COLOR \<noteq> []
   \<and> 8 / 10 < double_0_8 \<and> double_0_8 - 8 / 10 < 1 / 2 ^ 54
   \<and> 9 / 10 < double_0_9 \<and> double_0_9 - 9 / 10 < 1 / 2 ^ 54
   \<and> (x < 1 / 2 \<or> x = real_of_int k / 2 ^ 53 \<longrightarrow>
        (row_color_by_ratio (Some (Fin x)) = STRONG_COLOR) = (x \<le> 8 / 10 \<or> x = double_0_8))
   \<and> (x < 1 / 2 \<or> x = real_of_int k / 2 ^ 53 \<longrightarrow>
        (row_color_by_ratio (Some (Fin x)) = MEDIUM_COLOR)
          = (8 / 10 < x \<and> x \<noteq> double_0_8 \<and> x < 9 / 10))
   \<and> (x < 1 / 2 \<or> x = real_of_int k / 2 ^ 53 \<longrightarrow>
        (row_color_by_ratio (Some (Fin x)) = []) = (9 / 10 \<le> x))"
proof -
  have strong: "(row_color_by_ratio (Some (Fin x)) = STRONG_COLOR) = (x \<le> double_0_8)"
    using colors_distinct by (auto simp: row_color_Fin)
  have medium: "(row_color_by_ratio (Some (Fin x)) = MEDIUM_COLOR) = (double_0_8 < x \<and> x < double_0_9)"
    using colors_distinct by (auto simp: row_color_Fin)
  have none: "(row_color_by_ratio (Some (Fin x)) = []) = (double_0_9 \<le> x)"
    using colors_distinct double_order by (auto simp: row_color_Fin)
  have special: "row_color_by_ratio None = []" "row_color_by_ratio (Some NaN) = []"
    "row_color_by_ratio (Some NInf) = STRONG_COLOR" "row_color_by_ratio (Some PInf) = []"
    by (simp_all add: row_color_by_ratio_def fgt_def)
  have page: "row_background r = row_color_by_ratio r"
  proof (cases r)
    case None
    then show ?thesis by (simp add: row_background_def row_color_by_ratio_def)
  next
    case (Some y)
    then show ?thesis by (cases y) (simp_all add: row_background_def row_color_by_ratio_def)
  qed
  note n8 = double_0_8_nearest and n9 = double_0_9_nearest
  have le8: "(x \<le> double_0_8) = (x \<le> 8 / 10 \<or> x = double_0_8)"
    and lt9: "(x < double_0_9) = (x < 9 / 10)"
    if "x < 1 / 2 \<or> x = real_of_int k / 2 ^ 53"
  proof -
    from that show "(x \<le> double_0_8) = (x \<le> 8 / 10 \<or> x = double_0_8)"
    proof
      assume "x < 1 / 2"
      with n8 show ?thesis by linarith
    next
      assume "x = real_of_int k / 2 ^ 53"
      then show ?thesis by (simp only: grid_le_0_8)
    qed
    from that show "(x < double_0_9) = (x < 9 / 10)"
    proof
      assume "x < 1 / 2"
      with n9 show ?thesis by linarith
    next
      assume "x = real_of_int k / 2 ^ 53"
      then show ?thesis by (simp only: grid_less_0_9)
    qed
  qed
  have dec_strong: "x < 1 / 2 \<or> x = real_of_int k / 2 ^ 53 \<longrightarrow>
        (row_color_by_ratio (Some (Fin x)) = STRONG_COLOR) = (x \<le> 8 / 10 \<or> x = double_0_8)"
    using le8 strong by blast
  have dec_medium: "x < 1 / 2 \<or> x = real_of_int k / 2 ^ 53 \<longrightarrow>
        (row_color_by_ratio (Some (Fin x)) = MEDIUM_COLOR)
          = (8 / 10 < x \<and> x \<noteq> double_0_8 \<and> x < 9 / 10)"
  proof
    assume g: "x < 1 / 2 \<or> x = real_of_int k / 2 ^ 53"
    have "(double_0_8 < x) = (\<not> x \<le> double_0_8)" by linarith
    also have "\<dots> = (8 / 10 < x \<and> x \<noteq> double_0_8)"
      unfolding le8 [OF g] by linarith
    finally show "(row_color_by_ratio (Some (Fin x)) = MEDIUM_COLOR)
          = (8 / 10 < x \<and> x \<noteq> double_0_8 \<and> x < 9 / 10)"
      unfolding medium lt9 [OF g] by blast
  qed
  have dec_none: "x < 1 / 2 \<or> x = real_of_int k / 2 ^ 53 \<longrightarrow>
        (row_color_by_ratio (Some (Fin x)) = []) = (9 / 10 \<le> x)"
  proof
    assume g: "x < 1 / 2 \<or> x = real_of_int k / 2 ^ 53"
    have "(double_0_9 \<le> x) = (\<not> x < double_0_9)" by linarith
    also have "\<dots> = (9 / 10 \<le> x)"
      unfolding lt9 [OF g] by linarith
    finally show "(row_color_by_ratio (Some (Fin x)) = []) = (9 / 10 \<le> x)"
      unfolding none .
  qed
  from strong medium none special page colors_distinct
    conjunct1 [OF n8] conjunct2 [OF n8] conjunct1 [OF n9] conjunct2 [OF n9]
    dec_strong dec_medium dec_none
  show ?thesis by (intro conjI)
qed

text \<open>
  The values of the witness are doubles: 90/110 and 80/110 as the division rounds them,
  the double 0.8 with its two neighbours, and the double 0.9 with the double below it.
\<close>

theorem row_color_by_ratio_tiers_witness:
  "row_color_by_ratio (Some (Fin (7369526662969903 / 2 ^ 53))) = MEDIUM_COLOR
   \<and> row_color_by_ratio (Some (Fin (6550690367084358 / 2 ^ 53))) = STRONG_COLOR
   \<and> row_color_by_ratio (Some (Fin (7205759403792793 / 2 ^ 53))) = STRONG_COLOR
   \<and> row_color_by_ratio (Some (Fin double_0_8)) = STRONG_COLOR
   \<and> row_color_by_ratio (Some (Fin (7205759403792795 / 2 ^ 53))) = MEDIUM_COLOR
   \<and> row_color_by_ratio (Some (Fin (8106479329266892 / 2 ^ 53))) = MEDIUM_COLOR
   \<and> row_color_by_ratio (Some (Fin double_0_9)) = []
   \<and> double_0_8 = real_of_int 7205759403792794 / 2 ^ 53"
proof -
  have a: "row_color_by_ratio (Some (Fin (7369526662969903 / 2 ^ 53))) = MEDIUM_COLOR"
    using row_color_by_ratio_tiers [of "7369526662969903 / 2 ^ 53" None 7369526662969903]
    by (simp add: double_0_8_def double_0_9_def)
  have b: "row_color_by_ratio (Some (Fin (6550690367084358 / 2 ^ 53))) = STRONG_COLOR"
    using row_color_by_ratio_tiers [of "6550690367084358 / 2 ^ 53" None 6550690367084358]
    by (simp add: double_0_8_def double_0_9_def)
  have c: "row_color_by_ratio (Some (Fin (7205759403792793 / 2 ^ 53))) = STRONG_COLOR"
    using row_color_by_ratio_tiers [of "7205759403792793 / 2 ^ 53" None 7205759403792793]
    by (simp add: double_0_8_def double_0_9_def)
  have grid: "double_0_8 = real_of_int 7205759403792794 / 2 ^ 53"
    by (simp add: double_0_8_def)
  then have hyp: "double_0_8 < 1 / 2 \<or> double_0_8 = real_of_int 7205759403792794 / 2 ^ 53"
    by (rule disjI2)
  from row_color_by_ratio_tiers [of double_0_8 None 7205759403792794] hyp
  have "(row_color_by_ratio (Some (Fin double_0_8)) = STRONG_COLOR)
      = (double_0_8 \<le> 8 / 10 \<or> double_0_8 = double_0_8)"
    by blast
  then have d: "row_color_by_ratio (Some (Fin double_0_8)) = STRONG_COLOR"
    by simp
  have e: "row_color_by_ratio (Some (Fin (7205759403792795 / 2 ^ 53))) = MEDIUM_COLOR"
    using row_color_by_ratio_tiers [of "7205759403792795 / 2 ^ 53" None 7205759403792795]
    by (simp add: double_0_8_def double_0_9_def)
  have f: "row_color_by_ratio (Some (Fin (8106479329266892 / 2 ^ 53))) = MEDIUM_COLOR"
    using row_color_by_ratio_tiers [of "8106479329266892 / 2 ^ 53" None 8106479329266892]
    by (simp add: double_0_8_def double_0_9_def)
  have g: "row_color_by_ratio (Some (Fin double_0_9)) = []"
    using row_color_by_ratio_tiers [of double_0_9 None 8106479329266893] by simp
  from a b c d e f g grid show ?thesis by (intro conjI)
qed

section \<open>Properties of the display strings\<close>

declare show_nat.simps [simp del] group3.simps [simp del]

lemma round_half_even_near: "\<bar>real_of_int (round_half_even x) - x\<bar> \<le> 1 / 2"
  unfolding round_half_even_def Let_def by (auto simp: abs_if; linarith)

lemma digit_char_digit: "digit_char d \<in> set ''0123456789''"
  unfolding digit_char_def by (rule nth_mem) simp

lemma digit_char_not_sep [simp]:
  "digit_char d \<noteq> CHR '',''" "digit_char d \<noteq> CHR ''.''" "digit_char d \<noteq> CHR ''-''"
  using digit_char_digit [of d] by auto

lemma show_nat_digits: "set (show_nat n) \<subseteq> set ''0123456789''"
proof (induction n rule: show_nat.induct)
  case (1 n)
  show ?case
  proof (cases "n < 10")
    case True
    then show ?thesis using digit_char_digit [of n] by (subst show_nat.simps) simp
  next
    case False
    with "1" digit_char_digit [of n] show ?thesis by (subst show_nat.simps) simp
  qed
qed

lemma show_nat_no_sep [simp]:
  "CHR '','' \<notin> set (show_nat n)" "CHR ''.'' \<notin> set (show_nat n)" "CHR ''-'' \<notin> set (show_nat n)"
  using show_nat_digits [of n] by auto

lemma show_nat_nonempty [simp]: "show_nat n \<noteq> []"
  by (subst show_nat.simps) simp

lemma pad3_digits: "length (pad3 n) = 3 \<and> set (pad3 n) \<subseteq> set ''0123456789''"
  using digit_char_digit by (simp add: pad3_def)

lemma group3_subset: "set (group3 ds) \<subseteq> insert (CHR '','') (set ds)"
proof (induction ds rule: group3.induct)
  case (1 ds)
  show ?case
  proof (cases "length ds \<le> 3")
    case True
    then show ?thesis by (subst group3.simps) auto
  next
    case False
    have "set (take (length ds - 3) ds) \<subseteq> set ds" "set (drop (length ds - 3) ds) \<subseteq> set ds"
      by (rule set_take_subset, rule set_drop_subset)
    with False "1" show ?thesis by (subst group3.simps) auto
  qed
qed

lemma group3_filter:
  "CHR '','' \<notin> set ds \<Longrightarrow> filter (\<lambda>c. c \<noteq> CHR '','') (group3 ds) = ds"
proof (induction ds rule: group3.induct)
  case (1 ds)
  have keep: "filter (\<lambda>c. c \<noteq> CHR '','') xs = xs" if "set xs \<subseteq> set ds" for xs
    using that "1.prems" by (auto simp: filter_id_conv)
  show ?case
  proof (cases "length ds \<le> 3")
    case True
    then show ?thesis using keep [of ds] by (subst group3.simps) simp
  next
    case False
    have sub: "set (take (length ds - 3) ds) \<subseteq> set ds" "set (drop (length ds - 3) ds) \<subseteq> set ds"
      by (rule set_take_subset, rule set_drop_subset)
    then have "CHR '','' \<notin> set (take (length ds - 3) ds)"
      using "1.prems" by auto
    with "1.IH" False
    have ih: "filter (\<lambda>c. c \<noteq> CHR '','') (group3 (take (length ds - 3) ds)) = take (length ds - 3) ds"
      by simp
    show ?thesis
      using False ih keep [OF sub(2)] by (subst group3.simps) simp
  qed
qed

text \<open>Counted from the right, exactly every fourth character of the grouped digits is a comma.\<close>

lemma group3_commas:
  "CHR '','' \<notin> set ds \<Longrightarrow> k < length (group3 ds) \<Longrightarrow>
     (rev (group3 ds) ! k = CHR '','') = (k mod 4 = 3)"
proof (induction ds arbitrary: k rule: group3.induct)
  case (1 ds)
  show ?case
  proof (cases "length ds \<le> 3")
    case True
    then have g: "group3 ds = ds" by (subst group3.simps) simp
    with "1.prems" True have k3: "k < 3" and "k < length (rev ds)"
      by simp_all
    then have "rev ds ! k \<in> set (rev ds)"
      by (intro nth_mem)
    with "1.prems"(1) g k3 show ?thesis by auto
  next
    case False
    define hd3 where "hd3 = take (length ds - 3) ds"
    define tl3 where "tl3 = drop (length ds - 3) ds"
    have g: "group3 ds = group3 hd3 @ CHR '','' # tl3"
      using False unfolding hd3_def tl3_def by (subst group3.simps) simp
    have len: "length tl3 = 3" using False by (simp add: tl3_def)
    have nocomma: "CHR '','' \<notin> set hd3" "CHR '','' \<notin> set tl3"
      using "1.prems"(1) set_take_subset [of "length ds - 3" ds]
        set_drop_subset [of "length ds - 3" ds]
      unfolding hd3_def tl3_def by auto
    have r: "rev (group3 ds) = rev tl3 @ CHR '','' # rev (group3 hd3)"
      by (simp add: g)
    consider (digits) "k < 3" | (comma) "k = 3" | (rest) "3 < k" by linarith
    then show ?thesis
    proof cases
      case digits
      then have "rev (group3 ds) ! k = rev tl3 ! k"
        by (simp add: r nth_append len)
      moreover have "rev tl3 ! k \<in> set (rev tl3)"
        using digits len by (intro nth_mem) simp
      ultimately show ?thesis using nocomma(2) digits by auto
    next
      case comma
      then show ?thesis by (simp add: r nth_append len)
    next
      case rest
      then have "k = (k - 4) + 4" by simp
      then obtain j where j: "k = j + 4" ..
      have jlen: "j < length (group3 hd3)"
        using "1.prems"(2) j by (simp add: g len)
      have "rev (group3 ds) ! k = rev (group3 hd3) ! j"
        by (simp add: r nth_append len j)
      moreover have "(rev (group3 hd3) ! j = CHR '','') = (j mod 4 = 3)"
        using "1.IH" [OF False nocomma(1) [unfolded hd3_def] jlen [unfolded hd3_def]]
        by (simp add: hd3_def)
      ultimately show ?thesis by (simp add: j)
    qed
  qed
qed

text \<open>The digits written for a natural number denote it.\<close>

lemma digit_val_digit_char: "digit_val (digit_char d) = Some (d mod 10)"
proof -
  have "d mod 10 < 10" by simp
  then consider "d mod 10 = 0" | "d mod 10 = 1" | "d mod 10 = 2" | "d mod 10 = 3"
    | "d mod 10 = 4" | "d mod 10 = 5" | "d mod 10 = 6" | "d mod 10 = 7"
    | "d mod 10 = 8" | "d mod 10 = 9"
    by atomize_elim presburger
  then show ?thesis
    by cases (simp_all add: digit_val_def digit_char_def)
qed

lemma digits_val_snoc:
  "xs \<noteq> [] \<Longrightarrow>
     digits_val (xs @ [c]) =
       (case (digits_val xs, digit_val c) of (Some n, Some d) \<Rightarrow> Some (10 * n + d) | _ \<Rightarrow> None)"
proof (cases xs)
  case Nil
  assume "xs \<noteq> []"
  with Nil show ?thesis by simp
next
  case (Cons x ys)
  then show ?thesis by (cases ys) (simp_all add: butlast_append)
qed

lemma show_nat_roundtrip: "digits_val (show_nat n) = Some n"
proof (induction n rule: show_nat.induct)
  case (1 n)
  show ?case
  proof (cases "n < 10")
    case True
    then show ?thesis
      by (subst show_nat.simps) (simp add: digit_val_digit_char)
  next
    case False
    with "1" have "digits_val (show_nat (n div 10)) = Some (n div 10)" by simp
    with False show ?thesis
      by (subst show_nat.simps) (simp add: digits_val_snoc digit_val_digit_char)
  qed
qed

lemma fmt_int_commas_Fin:
  "fmt_int_commas (Some (Fin x)) = format_int_commas (round_half_even x)"
  by (simp add: fmt_int_commas_def)

lemma format_int_commas_filter:
  "filter (\<lambda>c. c \<noteq> CHR '','') (format_int_commas n) = show_int n"
  by (simp add: format_int_commas_def show_int_def group3_filter)

lemma format_int_commas_no_point: "CHR ''.'' \<notin> set (format_int_commas n)"
  using group3_subset [of "show_nat (nat \<bar>n\<bar>)"] show_nat_no_sep(2) [of "nat \<bar>n\<bar>"]
  by (auto simp: format_int_commas_def)

lemma fmt_ratio_Fin:
  "fmt_ratio (Some (Fin x)) =
     (if x < 0 then ''-'' else []) @ show_nat (nat \<bar>round_half_even (x * 1000)\<bar> div 1000)
       @ ''.'' @ pad3 (nat \<bar>round_half_even (x * 1000)\<bar> mod 1000)"
  by (simp add: fmt_ratio_def Let_def)

lemma thousandth_near: "\<bar>real_of_int (round_half_even (x * 1000)) / 1000 - x\<bar> \<le> 1 / 2000"
  using round_half_even_near [of "x * 1000"] by (simp add: abs_if field_simps split: if_splits)

lemma fmt_ratio_example: "fmt_ratio (Some (Fin (90 / 110))) = ''0.818''"
  by (simp add: fmt_ratio_Fin round_half_even_def Let_def show_nat.simps pad3_def digit_char_def)

text \<open>
  C9 (as stated): for every value that is neither null nor not-a-number the price
  formatter renders the rounded value and the ratio formatter renders three decimals.
  This fails for an infinity, which is neither: rounding it raises, so the price
  formatter returns the empty string, and the ratio formatter writes \<open>inf\<close>.
\<close>

theorem fmt_infinity_counterexample:
  "\<not> isnan PInf \<and> fmt_int_commas (Some PInf) = [] \<and> fmt_ratio (Some PInf) = ''inf''"
  by (simp add: fmt_int_commas_def fmt_ratio_def)

text \<open>
  C9 (amended): both formatters return the empty string for null and for not-a-number.
  For a finite value \<open>x\<close> the price formatter returns the nearest integer (at most one
  half away from \<open>x\<close>) with its sign, written without a decimal point: its digits are
  those of the integer (they denote it in base ten), and counted from the right exactly every fourth character of
  the digits is a comma. For a finite \<open>x\<close> the ratio formatter returns the sign, the
  integer digits, a point and exactly three decimal digits, of the nearest multiple of
  one thousandth; 90/110 is written \<open>0.818\<close>. For an infinity the price formatter
  returns the empty string (the conversion raises and the exception is caught) and the
  ratio formatter writes \<open>inf\<close> or \<open>-inf\<close>.
\<close>

theorem fmt_display_strings:
  "fmt_int_commas None = [] \<and> fmt_int_commas (Some NaN) = []
   \<and> fmt_int_commas (Some (Fin x)) =
       (if round_half_even x < 0 then ''-'' else [])
         @ group3 (show_nat (nat \<bar>round_half_even x\<bar>))
   \<and> \<bar>real_of_int (round_half_even x) - x\<bar> \<le> 1 / 2
   \<and> filter (\<lambda>c. c \<noteq> CHR '','') (fmt_int_commas (Some (Fin x))) = show_int (round_half_even x)
   \<and> CHR ''.'' \<notin> set (fmt_int_commas (Some (Fin x)))
   \<and> (\<forall>k < length (group3 (show_nat m)).
         (rev (group3 (show_nat m)) ! k = CHR '','') = (k mod 4 = 3))
   \<and> fmt_ratio None = [] \<and> fmt_ratio (Some NaN) = []
   \<and> fmt_ratio (Some (Fin x)) =
       (if x < 0 then ''-'' else []) @ show_nat (nat \<bar>round_half_even (x * 1000)\<bar> div 1000)
         @ ''.'' @ pad3 (nat \<bar>round_half_even (x * 1000)\<bar> mod 1000)
   \<and> length (pad3 j) = 3 \<and> set (pad3 j) \<subseteq> set ''0123456789''
   \<and> set (show_nat j) \<subseteq> set ''0123456789'' \<and> digits_val (show_nat j) = Some j
   \<and> \<bar>real_of_int (round_half_even (x * 1000)) / 1000 - x\<bar> \<le> 1 / 2000
   \<and> fmt_ratio (Some (Fin (90 / 110))) = ''0.818''
   \<and> fmt_int_commas (Some PInf) = [] \<and> fmt_int_commas (Some NInf) = []
   \<and> fmt_ratio (Some PInf) = ''inf'' \<and> fmt_ratio (Some NInf) = ''-inf''"
proof -
  have nulls: "fmt_int_commas None = []" "fmt_int_commas (Some NaN) = []"
    "fmt_ratio None = []" "fmt_ratio (Some NaN) = []"
    by (simp_all add: fmt_int_commas_def fmt_ratio_def)
  have price: "fmt_int_commas (Some (Fin x)) =
       (if round_half_even x < 0 then ''-'' else [])
         @ group3 (show_nat (nat \<bar>round_half_even x\<bar>))"
    by (simp add: fmt_int_commas_Fin format_int_commas_def)
  have digits: "filter (\<lambda>c. c \<noteq> CHR '','') (fmt_int_commas (Some (Fin x))) = show_int (round_half_even x)"
    by (simp only: fmt_int_commas_Fin format_int_commas_filter)
  have no_point: "CHR ''.'' \<notin> set (fmt_int_commas (Some (Fin x)))"
    by (simp only: fmt_int_commas_Fin format_int_commas_no_point not_False_eq_True)
  have commas: "\<forall>k < length (group3 (show_nat m)).
         (rev (group3 (show_nat m)) ! k = CHR '','') = (k mod 4 = 3)"
    using group3_commas [of "show_nat m"] by simp
  have infinite: "fmt_int_commas (Some PInf) = []" "fmt_int_commas (Some NInf) = []"
    "fmt_ratio (Some PInf) = ''inf''" "fmt_ratio (Some NInf) = ''-inf''"
    by (simp_all add: fmt_int_commas_def fmt_ratio_def)
  show ?thesis
    by (intro conjI nulls price digits no_point commas round_half_even_near fmt_ratio_Fin
        conjunct1 [OF pad3_digits] conjunct2 [OF pad3_digits] show_nat_digits show_nat_roundtrip
        thousandth_near
        fmt_ratio_example infinite)
qed

theorem fmt_display_strings_witness:
  "fmt_int_commas (Some (Fin (12345675 / 10))) = ''1,234,568''
   \<and> fmt_int_commas (Some (Fin (5 / 2))) = ''2''
   \<and> fmt_int_commas (Some (Fin (- 12345 / 10))) = ''-1,234''
   \<and> fmt_ratio (Some (Fin (80 / 110))) = ''0.727''
   \<and> rev (group3 (show_nat 1234568)) ! 3 = CHR '',''"
proof -
  have a: "fmt_int_commas (Some (Fin (12345675 / 10))) = ''1,234,568''"
    using fmt_display_strings [of "12345675 / 10" 0 0]
    by (simp add: round_half_even_def Let_def show_nat.simps group3.simps digit_char_def)
  have b: "fmt_int_commas (Some (Fin (5 / 2))) = ''2''"
    using fmt_display_strings [of "5 / 2" 0 0]
    by (simp add: round_half_even_def Let_def show_nat.simps group3.simps digit_char_def)
  have c: "fmt_int_commas (Some (Fin (- 12345 / 10))) = ''-1,234''"
    using fmt_display_strings [of "- 12345 / 10" 0 0]
    by (simp add: round_half_even_def Let_def show_nat.simps group3.simps digit_char_def)
  have d: "fmt_ratio (Some (Fin (80 / 110))) = ''0.727''"
    using fmt_display_strings [of "80 / 110" 0 0]
    by (simp add: round_half_even_def Let_def show_nat.simps pad3_def digit_char_def)
  have len: "(3::nat) < length (group3 (show_nat 1234568))"
    by (simp add: show_nat.simps group3.simps)
  have e: "rev (group3 (show_nat 1234568)) ! 3 = CHR '',''"
    using fmt_display_strings [of 0 1234568 0] len by simp
  from a b c d e show ?thesis by simp
qed

section \<open>Properties of the report aggregator\<close>

lemma in_window_iff:
  "in_window P cutoff r =
     (\<exists>d. to_datetime P (issueDate r) = Some d \<and> date_le cutoff d)"
  by (simp add: in_window_def split: option.splits)

lemma df_1y_subset: "set (df_1y P clk rows n) \<subseteq> set rows"
  by (auto simp: df_1y_def)

lemma no_column_None: "\<not> has_column key rows \<Longrightarrow> r \<in> set rows \<Longrightarrow> key r = None"
  by (auto simp: has_column_def list_ex_iff)

lemma no_issueDate_column: "\<not> has_column issueDate rows \<Longrightarrow> df_1y P clk rows n = []"
proof -
  assume no: "\<not> has_column issueDate rows"
  have "\<not> in_window P c r" if "r \<in> set rows" for r c
    using no_column_None [OF no that] by (simp add: in_window_def to_datetime_def)
  then show ?thesis by (simp add: df_1y_def Let_def filter_empty_conv)
qed

lemma no_targetPrice_column:
  assumes "\<not> has_column targetPrice rows"
  shows "map (\<lambda>r. to_numeric P (targetPrice r)) (df_1y P clk rows n)
           = map (\<lambda>r. NaN) (df_1y P clk rows n)"
proof (rule map_cong [OF refl])
  fix r assume "r \<in> set (df_1y P clk rows n)"
  with df_1y_subset have "r \<in> set rows" by blast
  from no_column_None [OF assms this] show "to_numeric P (targetPrice r) = NaN" by simp
qed

lemma no_source_column:
  assumes "\<not> has_column source rows"
  shows "dropna_nunique (map source (df_1y P clk rows n)) = 0"
proof -
  have "isna (source r)" if "r \<in> set (df_1y P clk rows n)" for r
  proof -
    from that df_1y_subset have "r \<in> set rows" by blast
    from no_column_None [OF assms this] show ?thesis by simp
  qed
  then have "filter (\<lambda>c. \<not> isna c) (map source (df_1y P clk rows n)) = []"
    by (auto simp: filter_empty_conv)
  then show ?thesis by (simp add: dropna_nunique_def)
qed

lemma stats_by_frame:
  "build_one_year_report_stats P clk rows n = frame_stats P (df_1y P clk rows n)"
proof (cases "has_column issueDate rows")
  case False
  then show ?thesis
    by (simp add: build_one_year_report_stats_def frame_stats_def no_issueDate_column)
next
  case col: True
  then have ne: "rows \<noteq> []" by (auto simp: has_column_def)
  show ?thesis
  proof (cases "df_1y P clk rows n = []")
    case True
    then show ?thesis
      by (simp add: build_one_year_report_stats_def frame_stats_def)
  next
    case False
    with ne col show ?thesis
      by (simp add: build_one_year_report_stats_def frame_stats_def Let_def
          no_targetPrice_column no_source_column)
  qed
qed

lemma df_1y_parsed_only:
  "df_1y P clk (filter (\<lambda>r. to_datetime P (issueDate r) \<noteq> None) rows) n = df_1y P clk rows n"
proof -
  have "in_window P c r \<and> to_datetime P (issueDate r) \<noteq> None \<longleftrightarrow> in_window P c r" for c r
    by (auto simp: in_window_iff)
  then show ?thesis by (simp add: df_1y_def Let_def conj_commute)
qed

lemma ref_parse_examples:
  "strptime_dmy (JStr ''01/06/2023'') = Some (Date 2023 6 1)"
  "strptime_dmy (JStr ''01/01/2024'') = Some (Date 2024 1 1)"
  "strptime_dmy (JStr ''01/01/2020'') = Some (Date 2020 1 1)"
  "strptime_dmy (JStr ''31/02/2024'') = None"
  "strptime_dmy (JStr ''soon'') = None"
  by (simp_all add: digit_val_def valid_date_def days_in_month_def is_leap_def)

lemma ref_to_datetime_examples:
  "to_datetime ref_pd (Some (JStr ''01/06/2023'')) = Some (Date 2023 6 1)"
  "to_datetime ref_pd (Some (JStr ''01/01/2024'')) = Some (Date 2024 1 1)"
  "to_datetime ref_pd (Some (JStr ''01/01/2020'')) = Some (Date 2020 1 1)"
  "to_datetime ref_pd (Some (JStr ''31/02/2024'')) = None"
  "to_datetime ref_pd (Some (JStr ''soon'')) = None"
  "to_datetime ref_pd (Some JNull) = None"
  "to_datetime ref_pd None = None"
  by (simp_all only: to_datetime_def ref_pd_def isna.simps if_False if_True option.sel
      pd.simps ref_parse_examples)

text \<open>
  C3 (as stated): the cutoff is the date of today in UTC minus the lookback. The
  aggregator reads the date of today in the local time zone instead. On a machine seven
  hours ahead of UTC, at 20:00 UTC on 1 June 2024 the local date is 2 June 2024: a report
  issued on 01/06/2023 parses and is on the cutoff counted from the UTC date, yet it is
  not kept and the number of reports is 0.
\<close>

theorem utc_cutoff_counterexample:
  "to_datetime ref_pd (Some (JStr ''01/06/2023'')) = Some (Date 2023 6 1)
   \<and> date_le (sub_years (utc_today \<lparr>local_today = Date 2024 6 2, utc_today = Date 2024 6 1\<rparr>) 1)
        (Date 2023 6 1)
   \<and> build_one_year_report_stats ref_pd
        \<lparr>local_today = Date 2024 6 2, utc_today = Date 2024 6 1\<rparr>
        [\<lparr>issueDate = Some (JStr ''01/06/2023''), targetPrice = Some (JNum (Fin 100)),
          source = Some (JStr ''A'')\<rparr>] 1 = (None, 0, 0)"
  by (simp add: stats_by_frame frame_stats_def df_1y_def Let_def in_window_def
      ref_to_datetime_examples sub_years_def date_le_def days_in_month_def is_leap_def)

text \<open>
  C3 (amended): with the cutoff counted from the date of today in the local time zone of
  the machine (the same month and day \<open>lookback_years\<close> years earlier, the day clipped
  to the month), the filter keeps exactly the records whose issueDate parses and whose
  parsed date is on or after the cutoff. A record whose issueDate does not parse is not
  kept, and the triple returned is the same as when such records are removed from the
  input, whatever their targetPrice. The number of reports returned is the size of the
  filtered set.
\<close>

theorem window_filter_local:
  "df_1y P clk rows n =
     filter (\<lambda>r. \<exists>d. to_datetime P (issueDate r) = Some d
                     \<and> date_le (sub_years (local_today clk) n) d) rows
   \<and> sub_years (local_today clk) n =
       Date (year (local_today clk) - n) (month (local_today clk))
         (min (day (local_today clk))
              (days_in_month (year (local_today clk) - n) (month (local_today clk))))
   \<and> (to_datetime P (issueDate r) = None \<longrightarrow> r \<notin> set (df_1y P clk rows n))
   \<and> build_one_year_report_stats P clk rows n =
       build_one_year_report_stats P clk
         (filter (\<lambda>r. to_datetime P (issueDate r) \<noteq> None) rows) n
   \<and> snd (snd (build_one_year_report_stats P clk rows n)) = length (df_1y P clk rows n)"
proof -
  have kept: "df_1y P clk rows n =
     filter (\<lambda>r. \<exists>d. to_datetime P (issueDate r) = Some d
                     \<and> date_le (sub_years (local_today clk) n) d) rows"
  proof -
    have "in_window P c = (\<lambda>r. \<exists>d. to_datetime P (issueDate r) = Some d \<and> date_le c d)" for c
      by (rule ext) (simp add: in_window_iff)
    then show ?thesis by (simp add: df_1y_def Let_def)
  qed
  have cutoff: "sub_years (local_today clk) n =
       Date (year (local_today clk) - n) (month (local_today clk))
         (min (day (local_today clk))
              (days_in_month (year (local_today clk) - n) (month (local_today clk))))"
    by (simp add: sub_years_def)
  have unparsed: "to_datetime P (issueDate r) = None \<longrightarrow> r \<notin> set (df_1y P clk rows n)"
    by (simp add: kept)
  have same: "build_one_year_report_stats P clk rows n =
       build_one_year_report_stats P clk
         (filter (\<lambda>r. to_datetime P (issueDate r) \<noteq> None) rows) n"
    by (simp only: stats_by_frame df_1y_parsed_only)
  have count: "snd (snd (build_one_year_report_stats P clk rows n)) = length (df_1y P clk rows n)"
    by (simp add: stats_by_frame frame_stats_def)
  from kept cutoff unparsed same count show ?thesis by (intro conjI)
qed

theorem window_filter_local_witness:
  "df_1y ref_pd \<lparr>local_today = Date 2024 6 1, utc_today = Date 2024 6 1\<rparr>
     [\<lparr>issueDate = Some (JStr ''01/01/2024''), targetPrice = Some (JNum (Fin 100)),
        source = Some (JStr ''A'')\<rparr>,
      \<lparr>issueDate = Some (JStr ''soon''), targetPrice = Some (JNum (Fin 120)),
        source = Some (JStr ''B'')\<rparr>,
      \<lparr>issueDate = Some (JStr ''01/01/2020''), targetPrice = Some (JNum (Fin 999)),
        source = Some (JStr ''C'')\<rparr>] 1
   = [\<lparr>issueDate = Some (JStr ''01/01/2024''), targetPrice = Some (JNum (Fin 100)),
        source = Some (JStr ''A'')\<rparr>]
   \<and> to_datetime ref_pd (issueDate \<lparr>issueDate = Some (JStr ''soon''),
        targetPrice = Some (JNum (Fin 120)), source = Some (JStr ''B'')\<rparr>) = None
   \<and> snd (snd (build_one_year_report_stats ref_pd
        \<lparr>local_today = Date 2024 6 1, utc_today = Date 2024 6 1\<rparr>
        [\<lparr>issueDate = Some (JStr ''01/01/2024''), targetPrice = Some (JNum (Fin 100)),
           source = Some (JStr ''A'')\<rparr>,
         \<lparr>issueDate = Some (JStr ''soon''), targetPrice = Some (JNum (Fin 120)),
           source = Some (JStr ''B'')\<rparr>,
         \<lparr>issueDate = Some (JStr ''01/01/2020''), targetPrice = Some (JNum (Fin 999)),
           source = Some (JStr ''C'')\<rparr>] 1)) = 1"
proof -
  let ?clk = "\<lparr>local_today = Date 2024 6 1, utc_today = Date 2024 6 1\<rparr>"
  let ?r1 = "\<lparr>issueDate = Some (JStr ''01/01/2024''), targetPrice = Some (JNum (Fin 100)),
        source = Some (JStr ''A'')\<rparr>"
  let ?r2 = "\<lparr>issueDate = Some (JStr ''soon''), targetPrice = Some (JNum (Fin 120)),
        source = Some (JStr ''B'')\<rparr>"
  let ?r3 = "\<lparr>issueDate = Some (JStr ''01/01/2020''), targetPrice = Some (JNum (Fin 999)),
        source = Some (JStr ''C'')\<rparr>"
  note w = window_filter_local [of ref_pd ?clk "[?r1, ?r2, ?r3]" 1 ?r2]
  from w have "df_1y ref_pd ?clk [?r1, ?r2, ?r3] 1 =
     filter (\<lambda>r. \<exists>d. to_datetime ref_pd (issueDate r) = Some d
                     \<and> date_le (sub_years (local_today ?clk) 1) d) [?r1, ?r2, ?r3]"
    by (elim conjE)
  then have kept: "df_1y ref_pd ?clk [?r1, ?r2, ?r3] 1 = [?r1]"
    by (simp add: ref_to_datetime_examples sub_years_def date_le_def days_in_month_def
        is_leap_def)
  have unparsed: "to_datetime ref_pd (issueDate ?r2) = None"
    by (simp add: ref_to_datetime_examples)
  from w have "snd (snd (build_one_year_report_stats ref_pd ?clk [?r1, ?r2, ?r3] 1))
      = length (df_1y ref_pd ?clk [?r1, ?r2, ?r3] 1)"
    by (elim conjE)
  with kept have count: "snd (snd (build_one_year_report_stats ref_pd ?clk [?r1, ?r2, ?r3] 1)) = 1"
    by simp
  from kept unparsed count show ?thesis by (intro conjI)
qed

lemma foldl_fadd_Fin: "foldl fadd (Fin a) (map Fin xs) = Fin (a + sum_list xs)"
  by (induction xs arbitrary: a) (simp_all add: add.assoc)

lemma series_mean_empty:
  "filter (\<lambda>v. \<not> isnan v) vs = [] \<Longrightarrow> series_mean vs = NaN"
  by (simp add: series_mean_def)

lemma series_mean_finite:
  "filter (\<lambda>v. \<not> isnan v) vs = map Fin xs \<Longrightarrow> xs \<noteq> [] \<Longrightarrow>
     series_mean vs = Fin (sum_list xs / real (length xs))"
  by (simp add: series_mean_def foldl_fadd_Fin)

lemma dropna_nunique_card: "dropna_nunique cs = card {c \<in> set cs. \<not> isna c}"
  by (simp add: dropna_nunique_def length_remdups_card_conv)

text \<open>
  C8: whenever the number of reports returned is 0, the average is null and the
  diversity is 0. The triple is (null, 0, 0) for an empty input, for an input in which
  no record has an issueDate key, and for an input in which no record parses to a date
  on or after the cutoff.
\<close>

theorem zero_count_zero_stats:
  "(snd (snd (build_one_year_report_stats P clk rows n)) = 0 \<longrightarrow>
      build_one_year_report_stats P clk rows n = (None, 0, 0))
   \<and> build_one_year_report_stats P clk [] n = (None, 0, 0)
   \<and> (\<not> has_column issueDate rows \<longrightarrow>
        build_one_year_report_stats P clk rows n = (None, 0, 0))
   \<and> ((\<forall>r \<in> set rows. \<not> (\<exists>d. to_datetime P (issueDate r) = Some d
                                \<and> date_le (sub_years (local_today clk) n) d)) \<longrightarrow>
        build_one_year_report_stats P clk rows n = (None, 0, 0))"
proof -
  have inv: "snd (snd (build_one_year_report_stats P clk rows n)) = 0 \<longrightarrow>
      build_one_year_report_stats P clk rows n = (None, 0, 0)"
    by (simp add: stats_by_frame frame_stats_def)
  have empty: "build_one_year_report_stats P clk [] n = (None, 0, 0)"
    by (simp add: build_one_year_report_stats_def)
  have no_key: "\<not> has_column issueDate rows \<longrightarrow>
        build_one_year_report_stats P clk rows n = (None, 0, 0)"
    by (simp add: build_one_year_report_stats_def)
  have none_in: "(\<forall>r \<in> set rows. \<not> (\<exists>d. to_datetime P (issueDate r) = Some d
                                \<and> date_le (sub_years (local_today clk) n) d)) \<longrightarrow>
        build_one_year_report_stats P clk rows n = (None, 0, 0)"
  proof
    assume "\<forall>r \<in> set rows. \<not> (\<exists>d. to_datetime P (issueDate r) = Some d
                                \<and> date_le (sub_years (local_today clk) n) d)"
    then have "df_1y P clk rows n = []"
      by (simp add: df_1y_def Let_def filter_empty_conv in_window_iff)
    then show "build_one_year_report_stats P clk rows n = (None, 0, 0)"
      by (simp add: stats_by_frame frame_stats_def)
  qed
  from inv empty no_key none_in show ?thesis by (intro conjI)
qed

theorem zero_count_zero_stats_witness:
  "build_one_year_report_stats ref_pd \<lparr>local_today = Date 2024 6 1, utc_today = Date 2024 6 1\<rparr>
     [\<lparr>issueDate = None, targetPrice = Some (JNum (Fin 100)), source = Some (JStr ''A'')\<rparr>] 1
     = (None, 0, 0)
   \<and> build_one_year_report_stats ref_pd \<lparr>local_today = Date 2024 6 1, utc_today = Date 2024 6 1\<rparr>
     [\<lparr>issueDate = Some (JStr ''01/01/2020''), targetPrice = Some (JNum (Fin 999)),
        source = Some (JStr ''C'')\<rparr>,
      \<lparr>issueDate = Some (JStr ''soon''), targetPrice = Some (JNum (Fin 120)),
        source = Some (JStr ''B'')\<rparr>] 1
     = (None, 0, 0)"
proof -
  let ?clk = "\<lparr>local_today = Date 2024 6 1, utc_today = Date 2024 6 1\<rparr>"
  let ?r0 = "\<lparr>issueDate = None, targetPrice = Some (JNum (Fin 100)), source = Some (JStr ''A'')\<rparr>"
  let ?r2 = "\<lparr>issueDate = Some (JStr ''soon''), targetPrice = Some (JNum (Fin 120)),
        source = Some (JStr ''B'')\<rparr>"
  let ?r3 = "\<lparr>issueDate = Some (JStr ''01/01/2020''), targetPrice = Some (JNum (Fin 999)),
        source = Some (JStr ''C'')\<rparr>"
  have no_key: "\<not> has_column issueDate [?r0]"
    by (simp add: has_column_def)
  have a: "build_one_year_report_stats ref_pd ?clk [?r0] 1 = (None, 0, 0)"
    using zero_count_zero_stats [of ref_pd ?clk "[?r0]" 1] no_key by blast
  have out: "\<forall>r \<in> set [?r3, ?r2]. \<not> (\<exists>d. to_datetime ref_pd (issueDate r) = Some d
                                \<and> date_le (sub_years (local_today ?clk) 1) d)"
    by (simp add: ref_to_datetime_examples sub_years_def date_le_def days_in_month_def
        is_leap_def)
  have b: "build_one_year_report_stats ref_pd ?clk [?r3, ?r2] 1 = (None, 0, 0)"
    using zero_count_zero_stats [of ref_pd ?clk "[?r3, ?r2]" 1] out by blast
  from a b show ?thesis by (intro conjI)
qed

text \<open>
  C4 (as stated): when no record of the filtered set has a numeric targetPrice, the
  number of reports and the diversity keep positive values. The diversity is not always
  positive: for a single record in the window whose targetPrice is null and that has no
  source, the average is null, the number of reports is 1 and the diversity is 0.
\<close>

theorem diversity_zero_counterexample:
  "build_one_year_report_stats ref_pd
     \<lparr>local_today = Date 2024 6 1, utc_today = Date 2024 6 1\<rparr>
     [\<lparr>issueDate = Some (JStr ''01/01/2024''), targetPrice = Some JNull, source = None\<rparr>] 1
   = (None, 0, 1)"
  by (simp add: stats_by_frame frame_stats_def df_1y_def Let_def in_window_def
      ref_to_datetime_examples sub_years_def date_le_def days_in_month_def is_leap_def
      series_mean_def dropna_nunique_def)

text \<open>
  C4 (amended): for a filtered set that is not empty, the number of reports is its size
  (so it is positive) and the diversity is the number of distinct source values that are
  not missing, both over all its records, also those whose targetPrice is missing or is
  no number; the diversity is positive when some record of the set has a source that is
  not missing. The average is taken over the target prices that are numbers only: it is
  null when there is none, and when these are finite it is their sum divided by their
  count.
\<close>

theorem invalid_target_counts:
  assumes "df_1y P clk rows n \<noteq> []"
  shows "snd (snd (build_one_year_report_stats P clk rows n)) = length (df_1y P clk rows n)
   \<and> 0 < snd (snd (build_one_year_report_stats P clk rows n))
   \<and> fst (snd (build_one_year_report_stats P clk rows n))
        = card {c \<in> set (map source (df_1y P clk rows n)). \<not> isna c}
   \<and> ((\<exists>r \<in> set (df_1y P clk rows n). \<not> isna (source r)) \<longrightarrow>
        0 < fst (snd (build_one_year_report_stats P clk rows n)))
   \<and> (filter (\<lambda>v. \<not> isnan v) (map (\<lambda>r. to_numeric P (targetPrice r)) (df_1y P clk rows n)) = []
        \<longrightarrow> fst (build_one_year_report_stats P clk rows n) = None)
   \<and> (filter (\<lambda>v. \<not> isnan v) (map (\<lambda>r. to_numeric P (targetPrice r)) (df_1y P clk rows n))
          = map Fin xs \<and> xs \<noteq> []
        \<longrightarrow> fst (build_one_year_report_stats P clk rows n)
              = Some (Fin (sum_list xs / real (length xs))))"
proof -
  have count: "snd (snd (build_one_year_report_stats P clk rows n)) = length (df_1y P clk rows n)"
    by (simp add: stats_by_frame frame_stats_def)
  have pos: "0 < snd (snd (build_one_year_report_stats P clk rows n))"
    using assms by (simp add: count)
  have diversity: "fst (snd (build_one_year_report_stats P clk rows n))
        = card {c \<in> set (map source (df_1y P clk rows n)). \<not> isna c}"
    using assms by (simp add: stats_by_frame frame_stats_def dropna_nunique_card)
  have some_source: "(\<exists>r \<in> set (df_1y P clk rows n). \<not> isna (source r)) \<longrightarrow>
        0 < fst (snd (build_one_year_report_stats P clk rows n))"
  proof
    assume "\<exists>r \<in> set (df_1y P clk rows n). \<not> isna (source r)"
    then have "{c \<in> set (map source (df_1y P clk rows n)). \<not> isna c} \<noteq> {}"
      by auto
    then have "0 < card {c \<in> set (map source (df_1y P clk rows n)). \<not> isna c}"
      by (simp add: card_gt_0_iff)
    then show "0 < fst (snd (build_one_year_report_stats P clk rows n))"
      by (simp only: diversity)
  qed
  have none: "filter (\<lambda>v. \<not> isnan v) (map (\<lambda>r. to_numeric P (targetPrice r)) (df_1y P clk rows n)) = []
        \<longrightarrow> fst (build_one_year_report_stats P clk rows n) = None"
    using assms by (simp add: stats_by_frame frame_stats_def series_mean_empty)
  have mean: "filter (\<lambda>v. \<not> isnan v) (map (\<lambda>r. to_numeric P (targetPrice r)) (df_1y P clk rows n))
          = map Fin xs \<and> xs \<noteq> []
        \<longrightarrow> fst (build_one_year_report_stats P clk rows n)
              = Some (Fin (sum_list xs / real (length xs)))"
    using assms by (simp add: stats_by_frame frame_stats_def series_mean_finite)
  from count pos diversity some_source none mean show ?thesis by (intro conjI)
qed

theorem invalid_target_counts_witness:
  "build_one_year_report_stats ref_pd \<lparr>local_today = Date 2024 6 1, utc_today = Date 2024 6 1\<rparr>
     [\<lparr>issueDate = Some (JStr ''01/01/2024''), targetPrice = Some (JNum (Fin 100)),
        source = Some (JStr ''A'')\<rparr>,
      \<lparr>issueDate = Some (JStr ''01/01/2024''), targetPrice = Some JNull,
        source = Some (JStr ''B'')\<rparr>,
      \<lparr>issueDate = Some (JStr ''01/01/2024''), targetPrice = Some (JStr ''n/a''),
        source = Some (JStr ''A'')\<rparr>,
      \<lparr>issueDate = Some (JStr ''01/01/2024''), targetPrice = Some (JNum (Fin 120)),
        source = None\<rparr>] 1
   = (Some (Fin 110), 2, 4)"
proof -
  let ?clk = "\<lparr>local_today = Date 2024 6 1, utc_today = Date 2024 6 1\<rparr>"
  let ?rows = "[\<lparr>issueDate = Some (JStr ''01/01/2024''), targetPrice = Some (JNum (Fin 100)),
        source = Some (JStr ''A'')\<rparr>,
      \<lparr>issueDate = Some (JStr ''01/01/2024''), targetPrice = Some JNull,
        source = Some (JStr ''B'')\<rparr>,
      \<lparr>issueDate = Some (JStr ''01/01/2024''), targetPrice = Some (JStr ''n/a''),
        source = Some (JStr ''A'')\<rparr>,
      \<lparr>issueDate = Some (JStr ''01/01/2024''), targetPrice = Some (JNum (Fin 120)),
        source = None\<rparr>]"
  have frame: "df_1y ref_pd ?clk ?rows 1 = ?rows"
    by (simp add: df_1y_def Let_def in_window_def ref_to_datetime_examples sub_years_def
        date_le_def days_in_month_def is_leap_def)
  have ne: "df_1y ref_pd ?clk ?rows 1 \<noteq> []"
    unfolding frame by simp
  have nums: "filter (\<lambda>v. \<not> isnan v)
        (map (\<lambda>r. to_numeric ref_pd (targetPrice r)) (df_1y ref_pd ?clk ?rows 1))
      = map Fin [100, 120]"
    unfolding frame by (simp add: ref_pd_def numeric_of_digits_def digit_val_def)
  note t = invalid_target_counts [OF ne, of "[100, 120]"]
  from t nums have "fst (build_one_year_report_stats ref_pd ?clk ?rows 1)
      = Some (Fin (sum_list [100, 120] / real (length [100, 120 :: real])))"
    by blast
  then have avg: "fst (build_one_year_report_stats ref_pd ?clk ?rows 1) = Some (Fin 110)"
    by simp
  from t have "snd (snd (build_one_year_report_stats ref_pd ?clk ?rows 1))
      = length (df_1y ref_pd ?clk ?rows 1)"
    by blast
  then have count: "snd (snd (build_one_year_report_stats ref_pd ?clk ?rows 1)) = 4"
    unfolding frame by simp
  have diversity: "fst (snd (build_one_year_report_stats ref_pd ?clk ?rows 1)) = 2"
    unfolding stats_by_frame frame by (simp add: frame_stats_def dropna_nunique_def)
  from avg diversity count show ?thesis
    by (cases "build_one_year_report_stats ref_pd ?clk ?rows 1") simp
qed

section \<open>Properties of the report paginator\<close>

lemma fetch_reports_page_log:
  "fst (fetch_reports_page server ticker page page_size reqs) = reqs @ [(ticker, page, page_size)]"
  by (auto simp: fetch_reports_page_def Let_def split: http_result.splits option.splits)

lemma fetch_reports_page_result:
  "snd (fetch_reports_page server ticker page page_size reqs)
     = snd (fetch_reports_page server ticker page page_size [])"
  by (auto simp: fetch_reports_page_def Let_def split: http_result.splits option.splits)

lemma fetch_reports_page_split:
  "fetch_reports_page server ticker page page_size reqs
     = (reqs @ [(ticker, page, page_size)],
        snd (fetch_reports_page server ticker page page_size []))"
  using fetch_reports_page_log [of server ticker page page_size reqs]
    fetch_reports_page_result [of server ticker page page_size reqs]
  by (cases "fetch_reports_page server ticker page page_size reqs") simp

text \<open>One turn of the loop, in terms of the outcome of the page.\<close>

lemma fetch_loop_Cons:
  "fetch_loop server ticker page_size (page # pages) all_rows reqs =
     (case page_outcome server ticker page_size page of
        Inl e \<Rightarrow> (reqs @ [(ticker, page, page_size)], Inl e)
      | Inr rows \<Rightarrow>
          if rows = [] then (reqs @ [(ticker, page, page_size)], Inr all_rows)
          else if int (length rows) < page_size
          then (reqs @ [(ticker, page, page_size)], Inr (all_rows @ rows))
          else fetch_loop server ticker page_size pages (all_rows @ rows)
                 (reqs @ [(ticker, page, page_size)]))"
  by (subst fetch_loop.simps(2), subst fetch_reports_page_split)
     (simp add: page_outcome_def Let_def split: sum.splits)

declare fetch_loop.simps(2) [simp del]

lemma requested_pages_Nil [simp]: "requested_pages server ticker page_size [] = []"
  by (simp add: requested_pages_def)

lemma requested_pages_Cons:
  "requested_pages server ticker page_size (page # pages) =
     (if full_page server ticker page_size page
      then page # requested_pages server ticker page_size pages else [page])"
  by (simp add: requested_pages_def)

lemma fetch_loop_requests:
  "fst (fetch_loop server ticker page_size pages all_rows reqs)
     = reqs @ map (\<lambda>p. (ticker, p, page_size)) (requested_pages server ticker page_size pages)"
proof (induction pages arbitrary: all_rows reqs)
  case Nil
  then show ?case by simp
next
  case (Cons page pages)
  show ?case
  proof (cases "page_outcome server ticker page_size page")
    case (Inl e)
    then show ?thesis
      by (simp add: fetch_loop_Cons requested_pages_Cons full_page_def)
  next
    case (Inr rows)
    then show ?thesis
      by (simp add: fetch_loop_Cons requested_pages_Cons full_page_def Cons.IH)
  qed
qed

lemma fetch_loop_rows:
  "\<forall>p \<in> set (requested_pages server ticker page_size pages).
      \<exists>rows. page_outcome server ticker page_size p = Inr rows \<Longrightarrow>
   snd (fetch_loop server ticker page_size pages all_rows reqs)
     = Inr (all_rows @ concat (map (\<lambda>p. rows_of (page_outcome server ticker page_size p))
                                 (requested_pages server ticker page_size pages)))"
proof (induction pages arbitrary: all_rows reqs)
  case Nil
  then show ?case by simp
next
  case (Cons page pages)
  from Cons.prems obtain rows where rows: "page_outcome server ticker page_size page = Inr rows"
    by (auto simp: requested_pages_Cons split: if_splits)
  show ?case
  proof (cases "full_page server ticker page_size page")
    case True
    with Cons.prems have "\<forall>p \<in> set (requested_pages server ticker page_size pages).
      \<exists>rows. page_outcome server ticker page_size p = Inr rows"
      by (simp add: requested_pages_Cons)
    from Cons.IH [OF this] True rows show ?thesis
      by (simp add: fetch_loop_Cons requested_pages_Cons full_page_def rows_of_def)
  next
    case False
    with rows show ?thesis
      by (auto simp: fetch_loop_Cons requested_pages_Cons full_page_def rows_of_def)
  qed
qed

lemma fetch_loop_error:
  "p \<in> set (requested_pages server ticker page_size pages) \<Longrightarrow>
   page_outcome server ticker page_size p = Inl e \<Longrightarrow>
   snd (fetch_loop server ticker page_size pages all_rows reqs) = Inl e"
proof (induction pages arbitrary: all_rows reqs)
  case Nil
  then show ?case by simp
next
  case (Cons page pages)
  show ?case
  proof (cases "full_page server ticker page_size page")
    case True
    then obtain rows where rows: "page_outcome server ticker page_size page = Inr rows"
      "rows \<noteq> []" "\<not> int (length rows) < page_size"
      by (auto simp: full_page_def split: sum.splits)
    with Cons.prems True have "p \<in> set (requested_pages server ticker page_size pages)"
      by (auto simp: requested_pages_Cons)
    from Cons.IH [OF this Cons.prems(2)] rows show ?thesis
      by (simp add: fetch_loop_Cons)
  next
    case False
    with Cons.prems have "p = page" by (simp add: requested_pages_Cons)
    with Cons.prems(2) show ?thesis by (simp add: fetch_loop_Cons)
  qed
qed

lemma upto_as_map: "[a .. a + int n - 1] = map (\<lambda>i. a + int i) [0..<n]"
proof (induction n)
  case 0
  then show ?case by simp
next
  case (Suc n)
  have "[a .. a + int (Suc n) - 1] = [a .. a + int n - 1] @ [a + int n]"
    using upto_rec2 [of a "a + int n"] by (simp add: add.commute)
  with Suc show ?case by simp
qed

lemma range_as_map:
  "[page_start .. page_start + max_pages - 1]
     = map (\<lambda>i. page_start + int i) [0..<nat max_pages]"
proof (cases "0 \<le> max_pages")
  case True
  then show ?thesis using upto_as_map [of page_start "nat max_pages"] by simp
next
  case False
  then show ?thesis by simp
qed

lemma requested_prefix:
  "requested_pages server ticker page_size pages
     = take (length (requested_pages server ticker page_size pages)) pages"
  by (induction pages) (simp_all add: requested_pages_Cons)

lemma requested_full:
  "Suc i < length (requested_pages server ticker page_size pages) \<Longrightarrow>
     full_page server ticker page_size (requested_pages server ticker page_size pages ! i)"
proof (induction pages arbitrary: i)
  case Nil
  then show ?case by simp
next
  case (Cons page pages)
  show ?case
  proof (cases "full_page server ticker page_size page")
    case True
    with Cons show ?thesis
      by (cases i) (simp_all add: requested_pages_Cons)
  next
    case False
    with Cons.prems show ?thesis by (simp add: requested_pages_Cons)
  qed
qed

lemma requested_stop:
  "length (requested_pages server ticker page_size pages) < length pages \<Longrightarrow>
     requested_pages server ticker page_size pages \<noteq> []
     \<and> \<not> full_page server ticker page_size (last (requested_pages server ticker page_size pages))"
proof (induction pages)
  case Nil
  then show ?case by simp
next
  case (Cons page pages)
  show ?case
  proof (cases "full_page server ticker page_size page")
    case True
    with Cons show ?thesis by (simp add: requested_pages_Cons)
  next
    case False
    then show ?thesis by (simp add: requested_pages_Cons)
  qed
qed

lemma requested_length: "length (requested_pages server ticker page_size pages) \<le> length pages"
  by (induction pages) (simp_all add: requested_pages_Cons)

lemma page_rows_first_nonempty:
  "page_rows js =
     (if truthy (js ''data'') then the (js ''data'')
      else if truthy (js ''items'') then the (js ''items'')
      else if truthy (js ''result'') then the (js ''result'')
      else [])"
  by (auto simp: page_rows_def py_or_def truthy_def split: option.splits)

lemma full_page_iff:
  "full_page server ticker page_size p =
     (\<exists>rows. page_outcome server ticker page_size p = Inr rows \<and> rows \<noteq> []
             \<and> page_size \<le> int (length rows))"
  by (auto simp: full_page_def split: sum.splits)

text \<open>
  C5: the requests issued are those for a run of consecutive pages that starts at the
  first page (page 0 in the batch), at most \<open>max_pages\<close> of them. Every page but the
  last requested was full; and when fewer than \<open>max_pages\<close> requests were issued, the
  last one was not full: its request failed, or its list of rows was empty or shorter
  than the page size. The list of rows of a page is the first of \<open>data\<close>, \<open>items\<close>,
  \<open>result\<close> that is a list with an element, and the empty list if there is none. When
  every request succeeds, the result is the concatenation of the lists of rows of the
  pages requested, in the order of the requests.
\<close>

theorem paginator_requests:
  "fst (fetch_all_reports server ticker page_size max_pages page_start reqs)
     = reqs @ map (\<lambda>p. (ticker, p, page_size))
                  (issued_pages server ticker page_size max_pages page_start)
   \<and> issued_pages server ticker page_size max_pages page_start
       = map (\<lambda>i. page_start + int i)
           [0..<length (issued_pages server ticker page_size max_pages page_start)]
   \<and> length (issued_pages server ticker page_size max_pages page_start) \<le> nat max_pages
   \<and> (\<forall>i. Suc i < length (issued_pages server ticker page_size max_pages page_start) \<longrightarrow>
          full_page server ticker page_size
            (issued_pages server ticker page_size max_pages page_start ! i))
   \<and> (length (issued_pages server ticker page_size max_pages page_start) < nat max_pages \<longrightarrow>
          issued_pages server ticker page_size max_pages page_start \<noteq> []
          \<and> \<not> full_page server ticker page_size
                (last (issued_pages server ticker page_size max_pages page_start)))
   \<and> full_page server ticker page_size p =
       (\<exists>rows. page_outcome server ticker page_size p = Inr rows \<and> rows \<noteq> []
               \<and> page_size \<le> int (length rows))
   \<and> page_rows js =
       (if truthy (js ''data'') then the (js ''data'')
        else if truthy (js ''items'') then the (js ''items'')
        else if truthy (js ''result'') then the (js ''result'')
        else [])
   \<and> ((\<forall>p \<in> set (issued_pages server ticker page_size max_pages page_start).
          \<exists>rows. page_outcome server ticker page_size p = Inr rows) \<longrightarrow>
        snd (fetch_all_reports server ticker page_size max_pages page_start reqs)
          = Inr (concat (map (\<lambda>p. rows_of (page_outcome server ticker page_size p))
                             (issued_pages server ticker page_size max_pages page_start))))"
proof -
  let ?pages = "[page_start .. page_start + max_pages - 1]"
  let ?issued = "issued_pages server ticker page_size max_pages page_start"
  have len_pages: "length ?pages = nat max_pages"
    by (simp add: range_as_map)
  have log: "fst (fetch_all_reports server ticker page_size max_pages page_start reqs)
     = reqs @ map (\<lambda>p. (ticker, p, page_size)) ?issued"
    by (simp add: fetch_all_reports_def issued_pages_def fetch_loop_requests)
  have "?issued = take (length ?issued) ?pages"
    unfolding issued_pages_def by (rule requested_prefix)
  also have "\<dots> = map (\<lambda>i. page_start + int i) (take (length ?issued) [0..<nat max_pages])"
    by (simp add: range_as_map take_map)
  also have "take (length ?issued) [0..<nat max_pages] = [0..<length ?issued]"
    using requested_length [of server ticker page_size ?pages]
    by (simp add: issued_pages_def len_pages min_def)
  finally have consecutive: "?issued = map (\<lambda>i. page_start + int i) [0..<length ?issued]" .
  have bound: "length ?issued \<le> nat max_pages"
    using requested_length [of server ticker page_size ?pages]
    by (simp add: issued_pages_def len_pages)
  have full: "\<forall>i. Suc i < length ?issued \<longrightarrow> full_page server ticker page_size (?issued ! i)"
    unfolding issued_pages_def by (blast intro: requested_full)
  have stop: "length ?issued < nat max_pages \<longrightarrow>
          ?issued \<noteq> [] \<and> \<not> full_page server ticker page_size (last ?issued)"
    using requested_stop [of server ticker page_size ?pages]
    unfolding issued_pages_def len_pages by blast
  have rows: "(\<forall>p \<in> set ?issued. \<exists>rows. page_outcome server ticker page_size p = Inr rows) \<longrightarrow>
        snd (fetch_all_reports server ticker page_size max_pages page_start reqs)
          = Inr (concat (map (\<lambda>p. rows_of (page_outcome server ticker page_size p)) ?issued))"
    using fetch_loop_rows [of server ticker page_size ?pages "[]" reqs]
    by (simp add: fetch_all_reports_def issued_pages_def)
  from log consecutive bound full stop full_page_iff page_rows_first_nonempty rows
  show ?thesis by (intro conjI)
qed

theorem paginator_requests_witness:
  "fetch_all_reports
     (\<lambda>(t, p, s). if p < 2
        then Http_Response 200 (Some (\<lambda>k. if k = ''data'' then Some [10 * nat p, 10 * nat p + 1] else None))
        else Http_Response 200 (Some (\<lambda>k. if k = ''items'' then Some [99] else None)))
     ''VNM'' 2 5 0 []
   = ([(''VNM'', 0, 2), (''VNM'', 1, 2), (''VNM'', 2, 2)], Inr [0, 1, 10, 11, 99])"
proof -
  let ?server = "\<lambda>(t :: string, p :: int, s :: int). if p < 2
        then Http_Response 200 (Some (\<lambda>k. if k = ''data'' then Some [10 * nat p, 10 * nat p + 1] else None))
        else Http_Response 200 (Some (\<lambda>k. if k = ''items'' then Some [99 :: nat] else None))"
  have o0: "page_outcome ?server ''VNM'' 2 0 = Inr [0, 1]"
    and o1: "page_outcome ?server ''VNM'' 2 1 = Inr [10, 11]"
    and o2: "page_outcome ?server ''VNM'' 2 2 = Inr [99]"
    by (simp_all add: page_outcome_def fetch_reports_page_def page_rows_def py_or_def truthy_def)
  have issued: "issued_pages ?server ''VNM'' 2 5 0 = [0, 1, 2]"
    by (simp add: issued_pages_def requested_pages_def full_page_def o0 o1 o2 upto.simps)
  note t = paginator_requests [of ?server "''VNM''" 2 5 0 "[]" 0 "\<lambda>k. None"]
  from t have "fst (fetch_all_reports ?server ''VNM'' 2 5 0 [])
     = [] @ map (\<lambda>p. (''VNM'', p, 2)) (issued_pages ?server ''VNM'' 2 5 0)"
    by (elim conjE)
  then have log: "fst (fetch_all_reports ?server ''VNM'' 2 5 0 [])
     = [(''VNM'', 0, 2), (''VNM'', 1, 2), (''VNM'', 2, 2)]"
    unfolding issued by simp
  have ok: "\<forall>p \<in> set (issued_pages ?server ''VNM'' 2 5 0).
          \<exists>rows. page_outcome ?server ''VNM'' 2 p = Inr rows"
    unfolding issued using o0 o1 o2 by simp
  with t have "snd (fetch_all_reports ?server ''VNM'' 2 5 0 [])
          = Inr (concat (map (\<lambda>p. rows_of (page_outcome ?server ''VNM'' 2 p))
                             (issued_pages ?server ''VNM'' 2 5 0)))"
    by blast
  then have rows: "snd (fetch_all_reports ?server ''VNM'' 2 5 0 []) = Inr [0, 1, 10, 11, 99]"
    unfolding issued by (simp add: o0 o1 o2 rows_of_def)
  from log rows show ?thesis
    by (cases "fetch_all_reports ?server ''VNM'' 2 5 0 []") simp
qed

lemma page_outcome_cases:
  "(page_outcome server ticker page_size p = Inl e) =
     (case server (ticker, p, page_size) of
        Transport_Error e' \<Rightarrow> e = e'
      | Http_Response status body \<Rightarrow>
          (400 \<le> status \<and> status < 600 \<and> e = ''HTTPError'')
          \<or> (body = None \<and> e = ''JSONDecodeError'' \<and> (status < 400 \<or> 600 \<le> status)))"
  by (auto simp: page_outcome_def fetch_reports_page_def Let_def
      split: http_result.splits option.splits)

text \<open>
  C6: a page request fails when the transport raises, when the status is from 400 to 599,
  or when the body is not JSON. When the request for one of the pages requested fails,
  the whole fetch returns that exception and no rows; so a fetch that returns rows made
  no request that failed. In the batch the exception ends the second block of the
  ticker: the row keeps the fields it had and gets the report tag, and the rows of the
  earlier pages are used nowhere.
\<close>

theorem page_failure_propagates:
  "(p \<in> set (issued_pages server ticker page_size max_pages page_start)
      \<and> page_outcome server ticker page_size p = Inl e \<longrightarrow>
      snd (fetch_all_reports server ticker page_size max_pages page_start reqs) = Inl e)
   \<and> (snd (fetch_all_reports server ticker page_size max_pages page_start reqs) = Inr rows \<longrightarrow>
        (\<forall>q \<in> set (issued_pages server ticker page_size max_pages page_start).
           \<exists>rs. page_outcome server ticker page_size q = Inr rs))
   \<and> (page_outcome server ticker page_size p = Inl e) =
       (case server (ticker, p, page_size) of
          Transport_Error e' \<Rightarrow> e = e'
        | Http_Response status body \<Rightarrow>
            (400 \<le> status \<and> status < 600 \<and> e = ''HTTPError'')
            \<or> (body = None \<and> e = ''JSONDecodeError'' \<and> (status < 400 \<or> 600 \<le> status)))
   \<and> (snd (fetch_all_reports (report_server E) ticker PAGE_SIZE MAX_PAGES 0 []) = Inl e \<longrightarrow>
        reports_block E ticker row = row\<lparr>Errors := Errors row @ ''report_err:'' @ e @ ''; ''\<rparr>)"
proof -
  have err: "snd (fetch_all_reports server ticker page_size max_pages page_start reqs) = Inl e'"
    if "q \<in> set (issued_pages server ticker page_size max_pages page_start)"
      and "page_outcome server ticker page_size q = Inl e'" for q e'
    using that unfolding fetch_all_reports_def issued_pages_def by (rule fetch_loop_error)
  have first: "p \<in> set (issued_pages server ticker page_size max_pages page_start)
      \<and> page_outcome server ticker page_size p = Inl e \<longrightarrow>
      snd (fetch_all_reports server ticker page_size max_pages page_start reqs) = Inl e"
    using err by blast
  have second: "snd (fetch_all_reports server ticker page_size max_pages page_start reqs) = Inr rows \<longrightarrow>
        (\<forall>q \<in> set (issued_pages server ticker page_size max_pages page_start).
           \<exists>rs. page_outcome server ticker page_size q = Inr rs)"
  proof (intro impI ballI)
    fix q
    assume res: "snd (fetch_all_reports server ticker page_size max_pages page_start reqs) = Inr rows"
      and q: "q \<in> set (issued_pages server ticker page_size max_pages page_start)"
    show "\<exists>rs. page_outcome server ticker page_size q = Inr rs"
    proof (cases "page_outcome server ticker page_size q")
      case (Inl e')
      from err [OF q Inl] res show ?thesis by simp
    next
      case (Inr rs)
      then show ?thesis by blast
    qed
  qed
  have caller: "snd (fetch_all_reports (report_server E) ticker PAGE_SIZE MAX_PAGES 0 []) = Inl e \<longrightarrow>
        reports_block E ticker row = row\<lparr>Errors := Errors row @ ''report_err:'' @ e @ ''; ''\<rparr>"
    by (simp add: reports_block_def)
  from first second page_outcome_cases caller show ?thesis by (intro conjI)
qed

theorem page_failure_propagates_witness:
  "snd (fetch_all_reports
     (\<lambda>(t, p, s). if p < 1
        then Http_Response 200 (Some (\<lambda>k. if k = ''data'' then Some [1 :: nat, 2] else None))
        else Http_Response 500 None)
     ''VNM'' 2 5 0 []) = Inl ''HTTPError''"
proof -
  let ?server = "\<lambda>(t :: string, p :: int, s :: int). if p < 1
        then Http_Response 200 (Some (\<lambda>k. if k = ''data'' then Some [1 :: nat, 2] else None))
        else Http_Response 500 None"
  have o0: "page_outcome ?server ''VNM'' 2 0 = Inr [1, 2]"
    and o1: "page_outcome ?server ''VNM'' 2 1 = Inl ''HTTPError''"
    by (simp_all add: page_outcome_def fetch_reports_page_def page_rows_def py_or_def truthy_def)
  have issued: "issued_pages ?server ''VNM'' 2 5 0 = [0, 1]"
    by (simp add: issued_pages_def requested_pages_def full_page_def o0 o1 upto.simps)
  have "1 \<in> set (issued_pages ?server ''VNM'' 2 5 0)"
    unfolding issued by simp
  with o1 page_failure_propagates [of 1 ?server "''VNM''" 2 5 0 "''HTTPError''" "[]"]
  show ?thesis by blast
qed

section \<open>Properties of the batch\<close>

lemma fetch_all_first_page:
  assumes "0 < max_pages"
  shows "snd (fetch_all_reports server ticker page_size max_pages page_start reqs) =
     (case page_outcome server ticker page_size page_start of
        Inl e \<Rightarrow> Inl e
      | Inr rows \<Rightarrow>
          if rows = [] then Inr []
          else if int (length rows) < page_size then Inr rows
          else snd (fetch_loop server ticker page_size
                     [page_start + 1 .. page_start + max_pages - 1] rows
                     (reqs @ [(ticker, page_start, page_size)])))"
proof -
  from assms have "[page_start .. page_start + max_pages - 1]
      = page_start # [page_start + 1 .. page_start + max_pages - 1]"
    by (simp add: upto_rec1)
  then show ?thesis
    by (simp add: fetch_all_reports_def fetch_loop_Cons split: sum.splits)
qed

lemma main_loop_map: "main_loop E tickers rows_out = rows_out @ map (process_ticker E) tickers"
  by (induction tickers arbitrary: rows_out) simp_all

lemma reports_block_keeps:
  "Stock_Code (reports_block E ticker row) = Stock_Code row"
  "Current_Price (reports_block E ticker row) = Current_Price row"
  by (simp_all add: reports_block_def Let_def split: sum.splits prod.splits option.splits)

lemma safe_ratio_never_raises: "safe_ratio c r \<noteq> Inl e"
proof (cases c)
  case None
  then show ?thesis by simp
next
  case c: (Some x)
  show ?thesis
  proof (cases r)
    case None
    then show ?thesis by simp
  next
    case (Some y)
    with c show ?thesis by (simp add: safe_ratio_Some)
  qed
qed

lemma reports_block_failed:
  "snd (fetch_all_reports (report_server E) ticker PAGE_SIZE MAX_PAGES 0 []) = Inl e \<Longrightarrow>
     reports_block E ticker row = row\<lparr>Errors := Errors row @ ''report_err:'' @ e @ ''; ''\<rparr>"
  by (simp add: reports_block_def)

lemma reports_block_no_data:
  "snd (fetch_all_reports (report_server E) ticker PAGE_SIZE MAX_PAGES 0 []) = Inr raw \<Longrightarrow>
   build_one_year_report_stats (pandas E) (system_clock E) raw LOOKBACK_YEARS = (None, d, n) \<Longrightarrow>
     reports_block E ticker row =
       row\<lparr>Diversity_of_Report_Source := d, Reports_1Y := n,
           Errors := Errors row @ ''no_1y_reports_or_no_targetPrice; ''\<rparr>"
  by (simp add: reports_block_def)

lemma reports_block_evaluated:
  "snd (fetch_all_reports (report_server E) ticker PAGE_SIZE MAX_PAGES 0 []) = Inr raw \<Longrightarrow>
   build_one_year_report_stats (pandas E) (system_clock E) raw LOOKBACK_YEARS = (Some avg, d, n) \<Longrightarrow>
     reports_block E ticker row =
       row\<lparr>Diversity_of_Report_Source := d, Reports_1Y := n,
           Report_Evaluation := Some (fmul avg REPORT_FACTOR),
           Acceptable_Purchase_Price := Some (fmul (fmul avg REPORT_FACTOR) BARGAIN_FACTOR),
           Ratio := (case safe_ratio (Current_Price row) (Some (fmul avg REPORT_FACTOR)) of
                       Inr r \<Rightarrow> r | Inl e \<Rightarrow> Ratio row)\<rparr>"
  using safe_ratio_never_raises [of "Current_Price row" "Some (fmul avg REPORT_FACTOR)"]
  by (simp add: reports_block_def Let_def split: sum.splits)

lemma stats_avg_not_nan:
  "build_one_year_report_stats P clk rows n = (Some avg, d, k) \<Longrightarrow> \<not> isnan avg"
  by (auto simp: stats_by_frame frame_stats_def split: if_splits)

lemma process_ticker_price_fields:
  "Stock_Code (process_ticker E t) = t"
  "Current_Price (process_ticker E t) =
     (case fetch_current_price E t of Inl e \<Rightarrow> None | Inr p \<Rightarrow> Some p)"
  by (simp_all add: process_ticker_def reports_block_keeps price_block_def new_row_def
      split: sum.splits)

lemma price_row_fields:
  "Errors (price_block E t (new_row t)) = price_annotation E t"
  "Report_Evaluation (price_block E t (new_row t)) = None"
  "Acceptable_Purchase_Price (price_block E t (new_row t)) = None"
  "Ratio (price_block E t (new_row t)) = None"
  "Diversity_of_Report_Source (price_block E t (new_row t)) = 0"
  "Reports_1Y (price_block E t (new_row t)) = 0"
  by (simp_all add: price_block_def new_row_def price_annotation_def split: sum.splits)

lemma process_ticker_failed:
  assumes "snd (fetch_all_reports (report_server E) t PAGE_SIZE MAX_PAGES 0 []) = Inl e"
  shows "Report_Evaluation (process_ticker E t) = None
    \<and> Acceptable_Purchase_Price (process_ticker E t) = None
    \<and> Ratio (process_ticker E t) = None
    \<and> Diversity_of_Report_Source (process_ticker E t) = 0
    \<and> Reports_1Y (process_ticker E t) = 0
    \<and> Errors (process_ticker E t) = price_annotation E t @ ''report_err:'' @ e @ ''; ''"
  by (simp add: process_ticker_def reports_block_failed [OF assms] price_row_fields)

lemma process_ticker_no_data:
  assumes "snd (fetch_all_reports (report_server E) t PAGE_SIZE MAX_PAGES 0 []) = Inr raw"
    and "fst (build_one_year_report_stats (pandas E) (system_clock E) raw LOOKBACK_YEARS) = None"
  shows "Report_Evaluation (process_ticker E t) = None
    \<and> Acceptable_Purchase_Price (process_ticker E t) = None
    \<and> Ratio (process_ticker E t) = None
    \<and> Errors (process_ticker E t)
        = price_annotation E t @ ''no_1y_reports_or_no_targetPrice; ''"
proof -
  from assms(2) obtain d n where
    "build_one_year_report_stats (pandas E) (system_clock E) raw LOOKBACK_YEARS = (None, d, n)"
    by (cases "build_one_year_report_stats (pandas E) (system_clock E) raw LOOKBACK_YEARS") simp
  from reports_block_no_data [OF assms(1) this] show ?thesis
    by (simp add: process_ticker_def price_row_fields)
qed

lemma process_ticker_evaluated:
  assumes "snd (fetch_all_reports (report_server E) t PAGE_SIZE MAX_PAGES 0 []) = Inr raw"
    and "build_one_year_report_stats (pandas E) (system_clock E) raw LOOKBACK_YEARS = (Some avg, d, n)"
  shows "Report_Evaluation (process_ticker E t) = Some (fmul avg REPORT_FACTOR)
    \<and> Acceptable_Purchase_Price (process_ticker E t)
        = Some (fmul (fmul avg REPORT_FACTOR) BARGAIN_FACTOR)
    \<and> Errors (process_ticker E t) = price_annotation E t
    \<and> (Current_Price (process_ticker E t) = None \<longrightarrow> Ratio (process_ticker E t) = None)"
  by (simp add: process_ticker_def reports_block_evaluated [OF assms] price_row_fields
      reports_block_keeps)

text \<open>
  C7: the batch returns one row for each ticker, in the order of the list of tickers,
  whatever the requests do. A price request that fails leaves the current price and the
  ratio null and the error field starts with \<open>price_err:\<close> and the name of the
  exception. A report fetch that fails leaves the evaluation, the acceptable price and
  the ratio null and the two counts 0, and appends \<open>report_err:\<close> and the name of the
  exception. A fetch that succeeds with no usable data (a null average) leaves the same
  three fields null and appends \<open>no_1y_reports_or_no_targetPrice\<close>. When the average
  is not null the second block appends nothing. The three tags differ.
\<close>

theorem batch_rows:
  "main_loop E tickers [] = map (process_ticker E) tickers
   \<and> length (main_loop E tickers []) = length tickers
   \<and> map Stock_Code (main_loop E tickers []) = tickers
   \<and> map Stock_Code (main_rows E) = TICKERS
   \<and> (fetch_current_price E t = Inl e1 \<longrightarrow>
        Current_Price (process_ticker E t) = None \<and> Ratio (process_ticker E t) = None
        \<and> price_annotation E t = ''price_err:'' @ e1 @ ''; ''
        \<and> take (length (price_annotation E t)) (Errors (process_ticker E t))
            = price_annotation E t)
   \<and> (snd (fetch_all_reports (report_server E) t PAGE_SIZE MAX_PAGES 0 []) = Inl e2 \<longrightarrow>
        Report_Evaluation (process_ticker E t) = None
        \<and> Acceptable_Purchase_Price (process_ticker E t) = None
        \<and> Ratio (process_ticker E t) = None
        \<and> Diversity_of_Report_Source (process_ticker E t) = 0
        \<and> Reports_1Y (process_ticker E t) = 0
        \<and> Errors (process_ticker E t) = price_annotation E t @ ''report_err:'' @ e2 @ ''; '')
   \<and> (snd (fetch_all_reports (report_server E) t PAGE_SIZE MAX_PAGES 0 []) = Inr raw
       \<and> fst (build_one_year_report_stats (pandas E) (system_clock E) raw LOOKBACK_YEARS) = None
       \<longrightarrow>
        Report_Evaluation (process_ticker E t) = None
        \<and> Acceptable_Purchase_Price (process_ticker E t) = None
        \<and> Ratio (process_ticker E t) = None
        \<and> Errors (process_ticker E t)
            = price_annotation E t @ ''no_1y_reports_or_no_targetPrice; '')
   \<and> (snd (fetch_all_reports (report_server E) t PAGE_SIZE MAX_PAGES 0 []) = Inr raw
       \<and> fst (build_one_year_report_stats (pandas E) (system_clock E) raw LOOKBACK_YEARS) = Some avg
       \<longrightarrow> Errors (process_ticker E t) = price_annotation E t)
   \<and> (\<exists>p. fetch_current_price E t = Inr p) = (price_annotation E t = [])
   \<and> ''price_err:'' @ a \<noteq> ''report_err:'' @ b
   \<and> ''price_err:'' @ a \<noteq> ''no_1y_reports_or_no_targetPrice; ''
   \<and> ''report_err:'' @ b \<noteq> ''no_1y_reports_or_no_targetPrice; ''"
proof -
  have rows: "main_loop E tickers [] = map (process_ticker E) tickers"
    by (simp add: main_loop_map)
  have len: "length (main_loop E tickers []) = length tickers"
    by (simp add: main_loop_map)
  have codes: "map Stock_Code (main_loop E ts []) = ts" for ts
    by (simp add: main_loop_map process_ticker_price_fields comp_def)
  have all_codes: "map Stock_Code (main_rows E) = TICKERS"
    unfolding main_rows_def by (rule codes)
  have ratio_none: "Ratio (process_ticker E t) = None" if "Current_Price (process_ticker E t) = None"
  proof (cases "snd (fetch_all_reports (report_server E) t PAGE_SIZE MAX_PAGES 0 [])")
    case (Inl e)
    from process_ticker_failed [OF this] show ?thesis by simp
  next
    case (Inr raw')
    obtain av d n where st:
      "build_one_year_report_stats (pandas E) (system_clock E) raw' LOOKBACK_YEARS = (av, d, n)"
      by (cases "build_one_year_report_stats (pandas E) (system_clock E) raw' LOOKBACK_YEARS")
    show ?thesis
    proof (cases av)
      case None
      with st process_ticker_no_data [OF Inr] show ?thesis by simp
    next
      case (Some a')
      with st process_ticker_evaluated [OF Inr] that show ?thesis by blast
    qed
  qed
  have errors_prefix: "take (length (price_annotation E t)) (Errors (process_ticker E t))
            = price_annotation E t"
  proof (cases "snd (fetch_all_reports (report_server E) t PAGE_SIZE MAX_PAGES 0 [])")
    case (Inl e)
    from process_ticker_failed [OF this] show ?thesis by simp
  next
    case (Inr raw')
    obtain av d n where st:
      "build_one_year_report_stats (pandas E) (system_clock E) raw' LOOKBACK_YEARS = (av, d, n)"
      by (cases "build_one_year_report_stats (pandas E) (system_clock E) raw' LOOKBACK_YEARS")
    show ?thesis
    proof (cases av)
      case None
      with st process_ticker_no_data [OF Inr] show ?thesis by simp
    next
      case (Some a')
      with st process_ticker_evaluated [OF Inr] show ?thesis by simp
    qed
  qed
  have price: "fetch_current_price E t = Inl e1 \<longrightarrow>
        Current_Price (process_ticker E t) = None \<and> Ratio (process_ticker E t) = None
        \<and> price_annotation E t = ''price_err:'' @ e1 @ ''; ''
        \<and> take (length (price_annotation E t)) (Errors (process_ticker E t))
            = price_annotation E t"
  proof
    assume f: "fetch_current_price E t = Inl e1"
    then have cp: "Current_Price (process_ticker E t) = None"
      by (simp add: process_ticker_price_fields)
    from f have "price_annotation E t = ''price_err:'' @ e1 @ ''; ''"
      by (simp add: price_annotation_def)
    with cp ratio_none [OF cp] errors_prefix show "Current_Price (process_ticker E t) = None
        \<and> Ratio (process_ticker E t) = None
        \<and> price_annotation E t = ''price_err:'' @ e1 @ ''; ''
        \<and> take (length (price_annotation E t)) (Errors (process_ticker E t))
            = price_annotation E t"
      by (intro conjI)
  qed
  have failed: "snd (fetch_all_reports (report_server E) t PAGE_SIZE MAX_PAGES 0 []) = Inl e2 \<longrightarrow>
        Report_Evaluation (process_ticker E t) = None
        \<and> Acceptable_Purchase_Price (process_ticker E t) = None
        \<and> Ratio (process_ticker E t) = None
        \<and> Diversity_of_Report_Source (process_ticker E t) = 0
        \<and> Reports_1Y (process_ticker E t) = 0
        \<and> Errors (process_ticker E t) = price_annotation E t @ ''report_err:'' @ e2 @ ''; ''"
    by (rule impI) (rule process_ticker_failed)
  have no_data: "snd (fetch_all_reports (report_server E) t PAGE_SIZE MAX_PAGES 0 []) = Inr raw
       \<and> fst (build_one_year_report_stats (pandas E) (system_clock E) raw LOOKBACK_YEARS) = None
       \<longrightarrow>
        Report_Evaluation (process_ticker E t) = None
        \<and> Acceptable_Purchase_Price (process_ticker E t) = None
        \<and> Ratio (process_ticker E t) = None
        \<and> Errors (process_ticker E t)
            = price_annotation E t @ ''no_1y_reports_or_no_targetPrice; ''"
    using process_ticker_no_data [of E t raw] by blast
  have evaluated: "snd (fetch_all_reports (report_server E) t PAGE_SIZE MAX_PAGES 0 []) = Inr raw
       \<and> fst (build_one_year_report_stats (pandas E) (system_clock E) raw LOOKBACK_YEARS) = Some avg
       \<longrightarrow> Errors (process_ticker E t) = price_annotation E t"
  proof
    assume a: "snd (fetch_all_reports (report_server E) t PAGE_SIZE MAX_PAGES 0 []) = Inr raw
       \<and> fst (build_one_year_report_stats (pandas E) (system_clock E) raw LOOKBACK_YEARS) = Some avg"
    then obtain d n where
      "build_one_year_report_stats (pandas E) (system_clock E) raw LOOKBACK_YEARS = (Some avg, d, n)"
      by (cases "build_one_year_report_stats (pandas E) (system_clock E) raw LOOKBACK_YEARS") simp
    from process_ticker_evaluated [OF conjunct1 [OF a] this]
    show "Errors (process_ticker E t) = price_annotation E t" by simp
  qed
  have clean: "(\<exists>p. fetch_current_price E t = Inr p) = (price_annotation E t = [])"
    by (cases "fetch_current_price E t") (simp_all add: price_annotation_def)
  have tags: "''price_err:'' @ a \<noteq> ''report_err:'' @ b"
    "''price_err:'' @ a \<noteq> ''no_1y_reports_or_no_targetPrice; ''"
    "''report_err:'' @ b \<noteq> ''no_1y_reports_or_no_targetPrice; ''"
    by simp_all
  from rows len codes [of tickers] all_codes price failed no_data evaluated clean tags
  show ?thesis by (intro conjI)
qed

lemma example_stats:
  "build_one_year_report_stats ref_pd example_clock example_rows 1 = (Some (Fin 110), 2, 2)"
proof -
  have frame: "df_1y ref_pd example_clock example_rows 1 = take 2 example_rows"
    by (simp add: df_1y_def Let_def in_window_def example_rows_def example_clock_def
        ref_to_datetime_examples sub_years_def date_le_def days_in_month_def is_leap_def)
  show ?thesis
    unfolding stats_by_frame frame
    by (simp add: example_rows_def frame_stats_def series_mean_def dropna_nunique_def)
qed

lemma example_fetches:
  "snd (fetch_all_reports (report_server example_env) ''AAA'' PAGE_SIZE MAX_PAGES 0 [])
     = Inr example_rows"
  "snd (fetch_all_reports (report_server example_env) ''BBB'' PAGE_SIZE MAX_PAGES 0 [])
     = Inl ''HTTPError''"
  "snd (fetch_all_reports (report_server example_env) ''CCC'' PAGE_SIZE MAX_PAGES 0 [])
     = Inr []"
proof -
  have pos: "0 < MAX_PAGES" by (simp add: MAX_PAGES_def)
  have a: "page_outcome example_server ''AAA'' PAGE_SIZE 0 = Inr example_rows"
    and b: "page_outcome example_server ''BBB'' PAGE_SIZE 0 = Inl ''HTTPError''"
    and c: "page_outcome example_server ''CCC'' PAGE_SIZE 0 = Inr []"
    by (simp_all add: page_outcome_def fetch_reports_page_def example_server_def page_rows_def
        py_or_def truthy_def example_rows_def)
  have short: "example_rows \<noteq> []" "int (length example_rows) < PAGE_SIZE"
    by (simp_all add: example_rows_def PAGE_SIZE_def)
  show "snd (fetch_all_reports (report_server example_env) ''AAA'' PAGE_SIZE MAX_PAGES 0 [])
     = Inr example_rows"
    using short by (simp add: fetch_all_first_page [OF pos] example_env_def a)
  show "snd (fetch_all_reports (report_server example_env) ''BBB'' PAGE_SIZE MAX_PAGES 0 [])
     = Inl ''HTTPError''"
    by (simp add: fetch_all_first_page [OF pos] example_env_def b)
  show "snd (fetch_all_reports (report_server example_env) ''CCC'' PAGE_SIZE MAX_PAGES 0 [])
     = Inr []"
    by (simp add: fetch_all_first_page [OF pos] example_env_def c)
qed

lemma example_env_stats:
  "build_one_year_report_stats (pandas example_env) (system_clock example_env) example_rows
     LOOKBACK_YEARS = (Some (Fin 110), 2, 2)"
  "build_one_year_report_stats (pandas example_env) (system_clock example_env) []
     LOOKBACK_YEARS = (None, 0, 0)"
  using example_stats
  by (simp_all add: example_env_def LOOKBACK_YEARS_def build_one_year_report_stats_def)

theorem batch_rows_witness:
  "map Stock_Code (main_loop example_env [''AAA'', ''BBB'', ''CCC''] []) = [''AAA'', ''BBB'', ''CCC'']
   \<and> Current_Price (process_ticker example_env ''AAA'') = None
   \<and> Ratio (process_ticker example_env ''AAA'') = None
   \<and> Errors (process_ticker example_env ''AAA'') = ''price_err:Timeout; ''
   \<and> Report_Evaluation (process_ticker example_env ''BBB'') = None
   \<and> Errors (process_ticker example_env ''BBB'') = ''report_err:HTTPError; ''
   \<and> Report_Evaluation (process_ticker example_env ''CCC'') = None
   \<and> Errors (process_ticker example_env ''CCC'') = ''no_1y_reports_or_no_targetPrice; ''"
proof -
  have price_a: "fetch_current_price example_env ''AAA'' = Inl ''Timeout''"
    and price_b: "fetch_current_price example_env ''BBB'' = Inr (Fin 90)"
    and price_c: "fetch_current_price example_env ''CCC'' = Inr (Fin 90)"
    by (simp_all add: example_env_def)
  have ann: "price_annotation example_env ''AAA'' = ''price_err:Timeout; ''"
    "price_annotation example_env ''BBB'' = []" "price_annotation example_env ''CCC'' = []"
    by (simp_all add: price_annotation_def price_a price_b price_c)
  note ta = batch_rows [of example_env "[''AAA'', ''BBB'', ''CCC'']" "''AAA''" "''Timeout''"
      "''HTTPError''" example_rows "Fin 110" "[]" "[]"]
  note tb = batch_rows [of example_env "[''AAA'', ''BBB'', ''CCC'']" "''BBB''" "''Timeout''"
      "''HTTPError''" example_rows "Fin 110" "[]" "[]"]
  note tc = batch_rows [of example_env "[''AAA'', ''BBB'', ''CCC'']" "''CCC''" "''Timeout''"
      "''HTTPError''" "[]" "Fin 110" "[]" "[]"]
  from ta have codes: "map Stock_Code (main_loop example_env [''AAA'', ''BBB'', ''CCC''] [])
      = [''AAA'', ''BBB'', ''CCC'']"
    by (elim conjE)
  from ta price_a have a1: "Current_Price (process_ticker example_env ''AAA'') = None"
    and a2: "Ratio (process_ticker example_env ''AAA'') = None"
    by blast+
  from ta example_fetches(1) example_env_stats(1)
  have "Errors (process_ticker example_env ''AAA'') = price_annotation example_env ''AAA''"
    by (elim conjE) simp
  then have a3: "Errors (process_ticker example_env ''AAA'') = ''price_err:Timeout; ''"
    by (simp add: ann)
  from tb example_fetches(2)
  have b1: "Report_Evaluation (process_ticker example_env ''BBB'') = None"
    and "Errors (process_ticker example_env ''BBB'')
      = price_annotation example_env ''BBB'' @ ''report_err:'' @ ''HTTPError'' @ ''; ''"
    by blast+
  then have b2: "Errors (process_ticker example_env ''BBB'') = ''report_err:HTTPError; ''"
    by (simp add: ann)
  from example_env_stats(2)
  have "fst (build_one_year_report_stats (pandas example_env) (system_clock example_env) []
     LOOKBACK_YEARS) = None"
    by simp
  with tc example_fetches(3)
  have c1: "Report_Evaluation (process_ticker example_env ''CCC'') = None"
    and "Errors (process_ticker example_env ''CCC'')
      = price_annotation example_env ''CCC'' @ ''no_1y_reports_or_no_targetPrice; ''"
    by blast+
  then have c2: "Errors (process_ticker example_env ''CCC'') = ''no_1y_reports_or_no_targetPrice; ''"
    by (simp add: ann)
  from codes a1 a2 a3 b1 b2 c1 c2 show ?thesis by (intro conjI)
qed

text \<open>
  C10: when the fetch succeeds and the average is not null, the evaluation of the row is
  the average times 0.9 and the acceptable price is the evaluation times 0.8, both set
  (and neither is not-a-number) whether or not the price request failed; for a finite
  average they are the exact products. When the price request failed, the current price
  is null and so is the ratio.
\<close>

theorem evaluation_without_price:
  assumes "snd (fetch_all_reports (report_server E) t PAGE_SIZE MAX_PAGES 0 []) = Inr raw"
    and "build_one_year_report_stats (pandas E) (system_clock E) raw LOOKBACK_YEARS
           = (Some avg, d, n)"
  shows "Report_Evaluation (process_ticker E t) = Some (fmul avg REPORT_FACTOR)
    \<and> Acceptable_Purchase_Price (process_ticker E t)
        = Some (fmul (fmul avg REPORT_FACTOR) BARGAIN_FACTOR)
    \<and> \<not> isnan (fmul avg REPORT_FACTOR)
    \<and> \<not> isnan (fmul (fmul avg REPORT_FACTOR) BARGAIN_FACTOR)
    \<and> (avg = Fin a \<longrightarrow>
          fmul avg REPORT_FACTOR = Fin (a * (9 / 10))
          \<and> fmul (fmul avg REPORT_FACTOR) BARGAIN_FACTOR = Fin (a * (9 / 10) * (8 / 10)))
    \<and> (fetch_current_price E t = Inl e \<longrightarrow>
          Current_Price (process_ticker E t) = None \<and> Ratio (process_ticker E t) = None)"
proof -
  note ev = process_ticker_evaluated [OF assms]
  have nn: "\<not> isnan avg" using assms(2) by (rule stats_avg_not_nan)
  then have n1: "\<not> isnan (fmul avg REPORT_FACTOR)"
    and n2: "\<not> isnan (fmul (fmul avg REPORT_FACTOR) BARGAIN_FACTOR)"
    by (cases avg; simp add: REPORT_FACTOR_def BARGAIN_FACTOR_def)+
  have fin: "avg = Fin a \<longrightarrow>
          fmul avg REPORT_FACTOR = Fin (a * (9 / 10))
          \<and> fmul (fmul avg REPORT_FACTOR) BARGAIN_FACTOR = Fin (a * (9 / 10) * (8 / 10))"
    by (simp add: REPORT_FACTOR_def BARGAIN_FACTOR_def)
  have price: "fetch_current_price E t = Inl e \<longrightarrow>
          Current_Price (process_ticker E t) = None \<and> Ratio (process_ticker E t) = None"
  proof
    assume "fetch_current_price E t = Inl e"
    then have "Current_Price (process_ticker E t) = None"
      by (simp add: process_ticker_price_fields)
    with ev show "Current_Price (process_ticker E t) = None \<and> Ratio (process_ticker E t) = None"
      by blast
  qed
  from ev n1 n2 fin price show ?thesis by blast
qed

theorem evaluation_without_price_witness:
  "Report_Evaluation (process_ticker example_env ''AAA'') = Some (Fin 99)
   \<and> Acceptable_Purchase_Price (process_ticker example_env ''AAA'') = Some (Fin (396 / 5))
   \<and> Current_Price (process_ticker example_env ''AAA'') = None
   \<and> Ratio (process_ticker example_env ''AAA'') = None"
proof -
  have price: "fetch_current_price example_env ''AAA'' = Inl ''Timeout''"
    by (simp add: example_env_def)
  note t = evaluation_without_price [OF example_fetches(1) example_env_stats(1),
      of 110 "''Timeout''"]
  from t have "Report_Evaluation (process_ticker example_env ''AAA'')
      = Some (fmul (Fin 110) REPORT_FACTOR)"
    and "Acceptable_Purchase_Price (process_ticker example_env ''AAA'')
      = Some (fmul (fmul (Fin 110) REPORT_FACTOR) BARGAIN_FACTOR)"
    by blast+
  then have ev: "Report_Evaluation (process_ticker example_env ''AAA'') = Some (Fin 99)"
    and acc: "Acceptable_Purchase_Price (process_ticker example_env ''AAA'') = Some (Fin (396 / 5))"
    by (simp_all add: REPORT_FACTOR_def BARGAIN_FACTOR_def)
  from t price have "Current_Price (process_ticker example_env ''AAA'') = None"
    and "Ratio (process_ticker example_env ''AAA'') = None"
    by blast+
  with ev acc show ?thesis by (intro conjI)
qed

end
